theory Spec2Isabelle
  imports Main "HOL-Library.Word"
begin

section \<open>Buffers, hex strings and JavaScript numbers\<close>

text \<open>
  The module \<^verbatim>\<open>src/transaction.js\<close> keeps every script, hash and serialized
  transaction as a lower-case hex string and converts to Node \<^verbatim>\<open>Buffer\<close>s (byte
  arrays) only to measure lengths, to reverse bytes and to write little-endian integers.
  A \<^verbatim>\<open>Buffer\<close> is a list of bytes, a hex string a \<^typ>\<open>string\<close>. The numbers of a
  transaction (\<^verbatim>\<open>version\<close>, \<^verbatim>\<open>locktime\<close>, \<^verbatim>\<open>vout\<close>, \<^verbatim>\<open>satoshis\<close>, lengths) are
  non-negative integers, modelled as \<^typ>\<open>nat\<close>.
\<close>

type_synonym byte = "8 word"

datatype error = TypeError | RangeError | CollaboratorError

text \<open>Sequencing of a computation that may throw.\<close>

definition bindE :: "error + 'a \<Rightarrow> ('a \<Rightarrow> error + 'b) \<Rightarrow> error + 'b" where
  "bindE m f = (case m of Inl e \<Rightarrow> Inl e | Inr x \<Rightarrow> f x)"

text \<open>\<^verbatim>\<open>buf.toString('hex')\<close>: two lower-case hex digits per byte.\<close>

definition hexDigit :: "nat \<Rightarrow> char" where
  "hexDigit d = ''0123456789abcdef'' ! (d mod 16)"

definition hexByte :: "byte \<Rightarrow> string" where
  "hexByte b = [hexDigit (unat b div 16), hexDigit (unat b mod 16)]"

definition toHex :: "byte list \<Rightarrow> string" where
  "toHex bs = concat (map hexByte bs)"

text \<open>
  \<^verbatim>\<open>Buffer.from(str, 'hex')\<close>: decodes pairs of hex digits (either case) and stops at
  the first pair that is not two hex digits; a trailing single character is dropped.
\<close>

definition hexVal :: "char \<Rightarrow> nat option" where
  "hexVal c = map_of
     [(CHR ''0'', 0), (CHR ''1'', 1), (CHR ''2'', 2), (CHR ''3'', 3), (CHR ''4'', 4),
      (CHR ''5'', 5), (CHR ''6'', 6), (CHR ''7'', 7), (CHR ''8'', 8), (CHR ''9'', 9),
      (CHR ''a'', 10), (CHR ''b'', 11), (CHR ''c'', 12), (CHR ''d'', 13), (CHR ''e'', 14),
      (CHR ''f'', 15),
      (CHR ''A'', 10), (CHR ''B'', 11), (CHR ''C'', 12), (CHR ''D'', 13), (CHR ''E'', 14),
      (CHR ''F'', 15)] c"

fun fromHex :: "string \<Rightarrow> byte list" where
  "fromHex (a # b # rest) =
     (case hexVal a of
        None \<Rightarrow> []
      | Some x \<Rightarrow> (case hexVal b of
                   None \<Rightarrow> []
                 | Some y \<Rightarrow> of_nat (16 * x + y) # fromHex rest))"
| "fromHex _ = []"

text \<open>\<^verbatim>\<open>Buffer(b)\<close> / \<^verbatim>\<open>Buffer.from(b)\<close> for an array of numbers: each entry modulo 256.\<close>

definition bufferFromArray :: "nat list \<Rightarrow> byte list" where
  "bufferFromArray b = map of_nat b"

text \<open>\<^verbatim>\<open>Buffer.alloc(n)\<close>: \<open>n\<close> zero bytes.\<close>

definition bufferAlloc :: "nat \<Rightarrow> byte list" where
  "bufferAlloc n = replicate n 0"

text \<open>
  \<^verbatim>\<open>buf.writeUInt16LE(value, offset)\<close> and \<^verbatim>\<open>buf.writeUInt32LE(value, offset)\<close>: Node
  throws a range error when the value does not fit the width or the write would leave the
  buffer; otherwise the bytes at \<open>offset\<close> are overwritten, the rest of the buffer stays.
\<close>

definition writeUInt16LE :: "byte list \<Rightarrow> nat \<Rightarrow> nat \<Rightarrow> error + byte list" where
  "writeUInt16LE buf v offset =
     (if 65535 < v \<or> length buf < offset + 2 then Inl RangeError
      else Inr (buf[offset := of_nat (v mod 256), offset + 1 := of_nat (v div 256 mod 256)]))"

definition writeUInt32LE :: "byte list \<Rightarrow> nat \<Rightarrow> nat \<Rightarrow> error + byte list" where
  "writeUInt32LE buf v offset =
     (if 4294967295 < v \<or> length buf < offset + 4 then Inl RangeError
      else Inr (buf[offset := of_nat (v mod 256),
                    offset + 1 := of_nat (v div 256 mod 256),
                    offset + 2 := of_nat (v div 65536 mod 256),
                    offset + 3 := of_nat (v div 16777216 mod 256)]))"

text \<open>
  \<^verbatim>\<open>new Buffer(n)\<close> followed by \<^verbatim>\<open>.fill(pattern, 0, n)\<close> with a buffer as pattern: the
  pattern's bytes, repeated, fill all \<open>n\<close> positions.
\<close>

definition bufferFill :: "nat \<Rightarrow> byte list \<Rightarrow> byte list" where
  "bufferFill n pattern = map (\<lambda>k. pattern ! (k mod length pattern)) [0..<n]"

section \<open>Varint and length codec\<close>

text \<open>\<^verbatim>\<open>numToBytes\<close> (lines 56-59): the \<open>bytes\<close> low base-256 digits, lowest first.\<close>

fun numToBytes :: "nat \<Rightarrow> nat \<Rightarrow> nat list" where
  "numToBytes num 0 = []"
| "numToBytes num (Suc bytes) = (num mod 256) # numToBytes (num div 256) bytes"

text \<open>\<^verbatim>\<open>numToVarInt\<close> (lines 60-67).\<close>

definition numToVarInt :: "nat \<Rightarrow> string" where
  "numToVarInt num =
     (let b = (if num < 253 then [num]
               else if num < 65536 then [253] @ numToBytes num 2
               else if num < 4294967296 then [254] @ numToBytes num 4
               else [253] @ numToBytes num 8)
      in toHex (bufferFromArray b))"

text \<open>\<^verbatim>\<open>getStringBufferLength\<close> (lines 76-79): the byte length of a hex string, as one byte.\<close>

definition getStringBufferLength :: "string \<Rightarrow> string" where
  "getStringBufferLength hexStr =
     (let tmpBuf = length (fromHex hexStr) in toHex (bufferFromArray [tmpBuf]))"

text \<open>The value that a list of base-256 digits, lowest first, denotes.\<close>

fun leValue :: "nat list \<Rightarrow> nat" where
  "leValue [] = 0"
| "leValue (d # ds) = d + 256 * leValue ds"

subsection \<open>The number \<^verbatim>\<open>Math.pow(2, 64) - 1\<close>\<close>

text \<open>
  JavaScript numbers are IEEE-754 doubles with 53 significant bits. An integer below
  \<open>2^53\<close> is its own double; a larger one is rounded to the nearest multiple of
  \<open>2^e\<close> that has 53 significant bits, ties to the even multiple. \<open>js_number n\<close> is
  the double that the exact integer result \<open>n\<close> of an arithmetic operation is rounded to.
\<close>

function doubleExponent :: "nat \<Rightarrow> nat" where
  "doubleExponent n = (if n < 2 ^ 53 then 0 else Suc (doubleExponent (n div 2)))"
  by pat_completeness auto
termination
  by (relation "measure (\<lambda>n. n)") auto

declare doubleExponent.simps [simp del]

definition js_number :: "nat \<Rightarrow> nat" where
  "js_number n =
     (let e = doubleExponent n; q = n div 2 ^ e; r = n mod 2 ^ e
      in if 2 * r < 2 ^ e \<or> (2 * r = 2 ^ e \<and> even q) then q * 2 ^ e else (q + 1) * 2 ^ e)"

text \<open>
  The source writes the placeholder amount of \<^verbatim>\<open>SIGHASH_SINGLE\<close> as
  \<^verbatim>\<open>Math.pow(2, 64) - 1\<close>, in \<^verbatim>\<open>signatureForm\<close> (line 179) and in \<^verbatim>\<open>serializeTx\<close>
  (line 225): the double nearest to \<open>2^64 - 1\<close>.
\<close>

definition pow_2_64_minus_1 :: nat where
  "pow_2_64_minus_1 = js_number (2 ^ 64 - 1)"

section \<open>Opcodes and sighash codes (lines 10-24)\<close>

definition OP_DUP :: string where "OP_DUP = ''76''"
definition OP_HASH160 :: string where "OP_HASH160 = ''a9''"
definition OP_EQUALVERIFY :: string where "OP_EQUALVERIFY = ''88''"
definition OP_CHECKSIG :: string where "OP_CHECKSIG = ''ac''"
definition OP_CHECKBLOCKATHEIGHT :: string where "OP_CHECKBLOCKATHEIGHT = ''b4''"
definition OP_EQUAL :: string where "OP_EQUAL = ''87''"

definition SIGHASH_ALL :: nat where "SIGHASH_ALL = 1"
definition SIGHASH_NONE :: nat where "SIGHASH_NONE = 2"
definition SIGHASH_SINGLE :: nat where "SIGHASH_SINGLE = 3"
definition SIGHASH_ANYONECANPAY :: nat where "SIGHASH_ANYONECANPAY = 128"

section \<open>External collaborators\<close>

text \<open>
  The module calls \<^verbatim>\<open>bs58check.decode\<close>, \<^verbatim>\<open>zutils.privKeyToPubKey\<close>,
  \<^verbatim>\<open>zutils.pubKeyToAddr\<close>, \<^verbatim>\<open>zcrypto.sha256x2\<close> and \<^verbatim>\<open>secp256k1.sign\<close>, none of
  which it defines. They are parameters of the model: deterministic functions that
  return a value or throw. Keys, addresses and digests are strings, decoded payloads and
  raw signatures are buffers.
\<close>

record collaborators =
  bs58check_decode :: "string \<Rightarrow> error + byte list"
  privKeyToPubKey :: "string \<Rightarrow> error + string"
  pubKeyToAddr :: "string \<Rightarrow> error + string"
  sha256x2 :: "byte list \<Rightarrow> error + string"
  secp256k1_sign :: "byte list \<Rightarrow> byte list \<Rightarrow> error + byte list"

section \<open>Script builder\<close>

text \<open>\<^verbatim>\<open>mkPubkeyHashReplayScript\<close> (lines 86-125).\<close>

definition mkPubkeyHashReplayScript :: "collaborators \<Rightarrow> string \<Rightarrow> error + string" where
  "mkPubkeyHashReplayScript c address =
     bindE (bs58check_decode c address) (\<lambda>decoded.
     let addrHex = toHex decoded;
         subAddrHex = drop 4 addrHex;
         blockHeight = 141575
     in bindE (writeUInt32LE (bufferAlloc 4) blockHeight 0) (\<lambda>blockHeightBuffer.
     let blockHeightBuffer =
           (if blockHeightBuffer ! 3 = 0 then bufferFill 3 blockHeightBuffer
            else blockHeightBuffer);
         blockHeightHex = toHex blockHeightBuffer;
         blockHeightLength = getStringBufferLength blockHeightHex;
         blockHash = ''00000004bbe8504b7a8e7c6e23ea6fa57878ce946f9819752405d964175c4276'';
         blockHashHex = toHex (rev (fromHex blockHash));
         blockHashLength = getStringBufferLength blockHashHex
     in Inr (OP_DUP @ OP_HASH160 @ getStringBufferLength subAddrHex @ subAddrHex @
             OP_EQUALVERIFY @ OP_CHECKSIG @ blockHashLength @ blockHashHex @
             blockHeightLength @ blockHeightHex @ OP_CHECKBLOCKATHEIGHT)))"

text \<open>\<^verbatim>\<open>mkScriptHashScript\<close> (lines 132-137).\<close>

definition mkScriptHashScript :: "collaborators \<Rightarrow> string \<Rightarrow> error + string" where
  "mkScriptHashScript c address =
     bindE (bs58check_decode c address) (\<lambda>decoded.
     let addrHex = toHex decoded;
         subAddrHex = drop 4 addrHex
     in Inr (OP_HASH160 @ ''14'' @ subAddrHex @ OP_EQUAL))"

text \<open>\<^verbatim>\<open>addressToScript\<close> (lines 144-153).\<close>

definition addressToScript :: "collaborators \<Rightarrow> string \<Rightarrow> error + string" where
  "addressToScript c address =
     (if take 1 address = ''3'' \<or> take 1 address = ''2'' then mkScriptHashScript c address
      else mkPubkeyHashReplayScript c address)"

section \<open>Transactions as objects on a heap\<close>

text \<open>
  A \<^verbatim>\<open>TXOBJ\<close> is an object whose \<^verbatim>\<open>ins\<close> and \<^verbatim>\<open>outs\<close> are arrays of objects.
  \<^verbatim>\<open>signatureForm\<close> and \<^verbatim>\<open>signTx\<close> assign to fields of those element objects, and
  \<^verbatim>\<open>Object.assign({}, txObj)\<close> copies only the four top-level fields, so the copy's
  arrays hold the very objects of the original. The element objects therefore live in
  a store, addressed by references; an array is the list of its elements' references
  (the module never writes to an array in place: \<^verbatim>\<open>slice\<close> and the array literal
  build new arrays), and a \<^verbatim>\<open>TXOBJ\<close> is the value of its four fields.

  An input \<^verbatim>\<open>{output: {hash, vout}, script, sequence}\<close> is one record: the nested
  \<^verbatim>\<open>output\<close> object is only read.
\<close>

type_synonym ref = nat

record txin =
  in_hash :: string
  in_vout :: nat
  in_script :: string
  in_sequence :: string

record txout =
  out_script :: string
  out_satoshis :: nat

record heap =
  inobj :: "ref \<Rightarrow> txin"
  outobj :: "ref \<Rightarrow> txout"

record TXOBJ =
  locktime :: nat
  version :: nat
  ins :: "ref list"
  outs :: "ref list"

text \<open>\<^verbatim>\<open>obj.script = s\<close> on the input object at \<open>r\<close>.\<close>

definition set_in_script :: "heap \<Rightarrow> ref \<Rightarrow> string \<Rightarrow> heap" where
  "set_in_script h r s = h\<lparr>inobj := (inobj h)(r := (inobj h r)\<lparr>in_script := s\<rparr>)\<rparr>"

text \<open>
  The body of the \<^verbatim>\<open>SIGHASH_SINGLE\<close> loop (lines 179-180) on the output object at
  \<open>r\<close>: \<^verbatim>\<open>satoshis = Math.pow(2, 64) - 1\<close>, then \<^verbatim>\<open>script = ''\<close>.
\<close>

definition blank_out :: "heap \<Rightarrow> ref \<Rightarrow> heap" where
  "blank_out h r =
     h\<lparr>outobj := (outobj h)(r := (outobj h r)\<lparr>out_satoshis := pow_2_64_minus_1,
                                                 out_script := ''''\<rparr>)\<rparr>"

section \<open>Sighash preimage builder\<close>

text \<open>The loop of lines 169-171: every element of \<^verbatim>\<open>newTx.ins\<close>, in order.\<close>

fun clearScripts :: "heap \<Rightarrow> ref list \<Rightarrow> heap" where
  "clearScripts h [] = h"
| "clearScripts h (r # rs) = clearScripts (set_in_script h r '''') rs"

text \<open>
  The loop of lines 178-181, \<^verbatim>\<open>for (var j = 0; j < newTx.ins.length - 1; ++j)\<close>, with
  \<open>k\<close> iterations left at index \<open>j\<close>. \<^verbatim>\<open>newTx.outs[j]\<close> is \<^verbatim>\<open>undefined\<close> beyond the
  array, and assigning to a field of it throws a \<^verbatim>\<open>TypeError\<close>; the outputs
  overwritten before that stay overwritten.
\<close>

fun blankOuts :: "heap \<Rightarrow> ref list \<Rightarrow> nat \<Rightarrow> nat \<Rightarrow> (error + unit) \<times> heap" where
  "blankOuts h os j 0 = (Inr (), h)"
| "blankOuts h os j (Suc k) =
     (if j < length os then blankOuts (blank_out h (os ! j)) os (Suc j) k
      else (Inl TypeError, h))"

text \<open>
  \<^verbatim>\<open>signatureForm\<close> (lines 160-187). The result is the returned \<^verbatim>\<open>newTx\<close>, or the
  error thrown, together with the heap as the call leaves it.
\<close>

definition signatureForm ::
  "heap \<Rightarrow> TXOBJ \<Rightarrow> nat \<Rightarrow> string \<Rightarrow> nat \<Rightarrow> (error + TXOBJ) \<times> heap" where
  "signatureForm h txObj i script hashcode =
     (let newTx = txObj;
          h1 = clearScripts h (ins newTx)
      in if length (ins newTx) \<le> i then (Inl TypeError, h1)
         else
           let h2 = set_in_script h1 (ins newTx ! i) script
           in if hashcode = SIGHASH_NONE then (Inr (newTx\<lparr>outs := []\<rparr>), h2)
              else if hashcode = SIGHASH_SINGLE then
                (let newTx = newTx\<lparr>outs := take (length (ins newTx)) (outs newTx)\<rparr>
                 in case blankOuts h2 (outs newTx) 0 (length (ins newTx) - 1) of
                      (Inl e, h3) \<Rightarrow> (Inl e, h3)
                    | (Inr u, h3) \<Rightarrow> (Inr newTx, h3))
              else if hashcode = SIGHASH_ANYONECANPAY then
                (Inr (newTx\<lparr>ins := [ins newTx ! i]\<rparr>), h2)
              else (Inr newTx, h2))"

section \<open>Serializer\<close>

text \<open>
  The callback of \<^verbatim>\<open>txObj.ins.map\<close> (lines 204-216): it appends to
  \<^verbatim>\<open>serializedTx\<close> and overwrites the first two bytes of the shared \<^verbatim>\<open>_buf16\<close>.
\<close>

definition serializeInput :: "txin \<Rightarrow> string \<times> byte list \<Rightarrow> error + string \<times> byte list" where
  "serializeInput i st =
     (case st of (serializedTx, buf16) \<Rightarrow>
        bindE (writeUInt16LE buf16 (in_vout i) 0) (\<lambda>buf16.
        Inr (serializedTx @ in_hash i @ toHex buf16 @
             numToVarInt (length (in_script i)) @ in_script i @ in_sequence i, buf16)))"

fun serializeInputs ::
  "heap \<Rightarrow> ref list \<Rightarrow> string \<times> byte list \<Rightarrow> error + string \<times> byte list" where
  "serializeInputs h [] st = Inr st"
| "serializeInputs h (r # rs) st =
     bindE (serializeInput (inobj h r) st) (serializeInputs h rs)"

text \<open>The callback of \<^verbatim>\<open>txObj.outs.map\<close> (lines 220-235), with its own \<^verbatim>\<open>_buf32\<close>.\<close>

definition serializeOutput :: "txout \<Rightarrow> string \<Rightarrow> error + string" where
  "serializeOutput o1 serializedTx =
     (let buf32 = bufferAlloc 8
      in bindE
           (if out_satoshis o1 = pow_2_64_minus_1 then
              bindE (writeUInt32LE buf32 (2 ^ 32 - 1) 0) (\<lambda>buf32.
              writeUInt32LE buf32 (2 ^ 32 - 1) 4)
            else writeUInt32LE buf32 (out_satoshis o1) 0)
           (\<lambda>buf32.
              Inr (serializedTx @ toHex buf32 @
                   numToVarInt (length (out_script o1)) @ out_script o1)))"

fun serializeOutputs :: "heap \<Rightarrow> ref list \<Rightarrow> string \<Rightarrow> error + string" where
  "serializeOutputs h [] serializedTx = Inr serializedTx"
| "serializeOutputs h (r # rs) serializedTx =
     bindE (serializeOutput (outobj h r) serializedTx) (serializeOutputs h rs)"

text \<open>\<^verbatim>\<open>serializeTx\<close> (lines 194-242), reading the element objects from the heap.\<close>

definition serializeTx :: "heap \<Rightarrow> TXOBJ \<Rightarrow> error + string" where
  "serializeTx h txObj =
     bindE (writeUInt16LE (bufferAlloc 4) (version txObj) 0) (\<lambda>buf16.
     let serializedTx = '''' @ toHex buf16;
         serializedTx = serializedTx @ numToVarInt (length (ins txObj))
     in bindE (serializeInputs h (ins txObj) (serializedTx, buf16)) (\<lambda>st.
        case st of (serializedTx, buf16) \<Rightarrow>
          let serializedTx = serializedTx @ numToVarInt (length (outs txObj))
          in bindE (serializeOutputs h (outs txObj) serializedTx) (\<lambda>serializedTx.
             bindE (writeUInt16LE buf16 (locktime txObj) 0) (\<lambda>buf16.
             Inr (serializedTx @ toHex buf16)))))"

section \<open>Signer\<close>

text \<open>
  The signature encoding of \<^verbatim>\<open>signTx\<close> (lines 309-323), from the hex string of the raw
  signature and the hashcode to \<^verbatim>\<open>sigAndHashcode\<close>. \<^verbatim>\<open>'89abcdef'.indexOf(b[0])\<close> is
  \<open>-1\<close> for an empty \<open>b\<close>.
\<close>

definition highNibbleSet :: "string \<Rightarrow> bool" where
  "highNibbleSet b = (case b of [] \<Rightarrow> False | ch # rest \<Rightarrow> ch \<in> set ''89abcdef'')"

definition encodeSignature :: "string \<Rightarrow> nat \<Rightarrow> string" where
  "encodeSignature rawsig hashcode =
     (let b1 = take 64 rawsig;
          b2 = take 128 (drop 64 rawsig);
          b1 = (if highNibbleSet b1 then ''00'' @ b1 else b1);
          b2 = (if highNibbleSet b2 then ''00'' @ b2 else b2);
          left = ''02'' @ getStringBufferLength b1 @ b1;
          right = ''02'' @ getStringBufferLength b2 @ b2;
          sig = ''30'' @ getStringBufferLength (left @ right) @ left @ right
      in sig @ toHex (bufferFromArray [hashcode]))"

text \<open>A step that may throw, inside a computation that carries the heap.\<close>

definition tryE :: "heap \<Rightarrow> error + 'a \<Rightarrow> ('a \<Rightarrow> (error + 'b) \<times> heap) \<Rightarrow> (error + 'b) \<times> heap" where
  "tryE h m f = (case m of Inl e \<Rightarrow> (Inl e, h) | Inr x \<Rightarrow> f x)"

text \<open>
  \<^verbatim>\<open>signTx\<close> (lines 276-330). The hashcode argument is optional: \<open>None\<close> is
  \<^verbatim>\<open>undefined\<close>. The function returns the \<^verbatim>\<open>txObj\<close> it was given.
\<close>

definition signTx ::
  "collaborators \<Rightarrow> heap \<Rightarrow> TXOBJ \<Rightarrow> nat \<Rightarrow> string \<Rightarrow> nat option \<Rightarrow> (error + TXOBJ) \<times> heap" where
  "signTx c h txObj i privKey hashcode_arg =
     (let hashcode = (case hashcode_arg of None \<Rightarrow> SIGHASH_ALL | Some code \<Rightarrow> code)
      in tryE h (writeUInt16LE (bufferAlloc 4) hashcode 0) (\<lambda>buf16.
         tryE h (privKeyToPubKey c privKey) (\<lambda>pubKey.
         tryE h (pubKeyToAddr c pubKey) (\<lambda>address.
         tryE h (mkPubkeyHashReplayScript c address) (\<lambda>script.
         case signatureForm h txObj i script hashcode of
           (Inl e, h1) \<Rightarrow> (Inl e, h1)
         | (Inr signingTx, h1) \<Rightarrow>
             tryE h1 (serializeTx h1 signingTx) (\<lambda>signingTxHex.
             let signingTxWithHashcode = fromHex signingTxHex @ buf16
             in tryE h1 (sha256x2 c signingTxWithHashcode) (\<lambda>msg.
                tryE h1 (secp256k1_sign c (fromHex msg) (fromHex privKey)) (\<lambda>signature.
                let rawsig = toHex signature;
                    sigAndHashcode = encodeSignature rawsig hashcode
                in if length (ins txObj) \<le> i then (Inl TypeError, h1)
                   else (Inr txObj,
                         set_in_script h1 (ins txObj ! i)
                           (getStringBufferLength sigAndHashcode @ sigAndHashcode @
                            getStringBufferLength pubKey @ pubKey))))))))))"

section \<open>Reference notions the claims are stated with\<close>

text \<open>
  The DER integer of the specification: a big-endian value, prefixed with a zero byte
  exactly when the high bit of its first byte is set.
\<close>

definition paddedInteger :: "byte list \<Rightarrow> byte list" where
  "paddedInteger v = (case v of [] \<Rightarrow> [] | b # rest \<Rightarrow> if 128 \<le> unat b then 0 # v else v)"

text \<open>
  The wire layout that \<^verbatim>\<open>serializeTx\<close> is compared with, field by field: a number
  below \<open>2^16\<close> in a four-byte little-endian field, an amount below \<open>2^32\<close> (or the
  placeholder) in an eight-byte field, and the chunks of an input and of an output as the
  source concatenates them.
\<close>

definition uint16Field :: "nat \<Rightarrow> string" where
  "uint16Field v = toHex [of_nat (v mod 256), of_nat (v div 256 mod 256), 0, 0]"

definition amountField :: "nat \<Rightarrow> string" where
  "amountField v =
     (if v = pow_2_64_minus_1 then ''ffffffffffffffff''
      else toHex [of_nat (v mod 256), of_nat (v div 256 mod 256), of_nat (v div 65536 mod 256),
                  of_nat (v div 16777216 mod 256), 0, 0, 0, 0])"

definition inputChunk :: "txin \<Rightarrow> string" where
  "inputChunk i =
     in_hash i @ uint16Field (in_vout i) @ numToVarInt (length (in_script i)) @ in_script i @
     in_sequence i"

definition outputChunk :: "txout \<Rightarrow> string" where
  "outputChunk o1 =
     amountField (out_satoshis o1) @ numToVarInt (length (out_script o1)) @ out_script o1"

definition txLayout :: "heap \<Rightarrow> TXOBJ \<Rightarrow> string" where
  "txLayout h txObj =
     uint16Field (version txObj) @ numToVarInt (length (ins txObj)) @
     concat (map (\<lambda>r. inputChunk (inobj h r)) (ins txObj)) @
     numToVarInt (length (outs txObj)) @
     concat (map (\<lambda>r. outputChunk (outobj h r)) (outs txObj)) @
     uint16Field (locktime txObj)"

text \<open>The transactions on which \<^verbatim>\<open>serializeTx\<close> does not throw.\<close>

definition serializable :: "heap \<Rightarrow> TXOBJ \<Rightarrow> bool" where
  "serializable h txObj =
     (version txObj \<le> 65535 \<and> locktime txObj \<le> 65535 \<and>
      list_all (\<lambda>r. in_vout (inobj h r) \<le> 65535) (ins txObj) \<and>
      list_all (\<lambda>r. out_satoshis (outobj h r) = pow_2_64_minus_1 \<or>
                     out_satoshis (outobj h r) \<le> 4294967295) (outs txObj))"

text \<open>
  The effect of \<^verbatim>\<open>signatureForm\<close> on the stored objects, as functions of the store before
  the call: an output after lines 179-180, the input objects after lines 169-172, the
  output objects after lines 176-181, and the value the call returns or throws.
\<close>

definition blankedOutput :: "txout \<Rightarrow> txout" where
  "blankedOutput o1 = o1\<lparr>out_satoshis := pow_2_64_minus_1, out_script := ''''\<rparr>"

definition preimageInputs :: "TXOBJ \<Rightarrow> nat \<Rightarrow> string \<Rightarrow> (ref \<Rightarrow> txin) \<Rightarrow> ref \<Rightarrow> txin" where
  "preimageInputs txObj i script f r =
     (if r = ins txObj ! i then (f r)\<lparr>in_script := script\<rparr>
      else if r \<in> set (ins txObj) then (f r)\<lparr>in_script := ''''\<rparr>
      else f r)"

definition preimageOutputs :: "TXOBJ \<Rightarrow> nat \<Rightarrow> (ref \<Rightarrow> txout) \<Rightarrow> ref \<Rightarrow> txout" where
  "preimageOutputs txObj hashcode g r =
     (if hashcode = SIGHASH_SINGLE \<and> r \<in> set (take (length (ins txObj) - 1) (outs txObj))
      then blankedOutput (g r) else g r)"

definition signatureFormResult :: "TXOBJ \<Rightarrow> nat \<Rightarrow> nat \<Rightarrow> error + TXOBJ" where
  "signatureFormResult txObj i hashcode =
     (if hashcode = SIGHASH_NONE then Inr (txObj\<lparr>outs := []\<rparr>)
      else if hashcode = SIGHASH_SINGLE then
        (if length (outs txObj) + 1 < length (ins txObj) then Inl TypeError
         else Inr (txObj\<lparr>outs := take (length (ins txObj)) (outs txObj)\<rparr>))
      else if hashcode = SIGHASH_ANYONECANPAY then Inr (txObj\<lparr>ins := [ins txObj ! i]\<rparr>)
      else Inr txObj)"

section \<open>Concrete transactions\<close>

text \<open>
  A heap with two input objects and two output objects, and transactions over it. Input 0
  is unsigned; input 1 carries a script already; output 0 pays 99990000 to a
  pay-to-script-hash script of 23 bytes, output 1 pays 5000 to a one-byte script.
\<close>

definition exampleHeap :: heap where
  "exampleHeap =
     \<lparr>inobj = (\<lambda>r. if r = 0
                then \<lparr>in_hash = ''aaaaaaaaaaaaaaaaaaaaaaaaaaaaaaaaaaaaaaaaaaaaaaaaaaaaaaaaaaaaaaaa'',
                      in_vout = 0, in_script = '''', in_sequence = ''ffffffff''\<rparr>
                else \<lparr>in_hash = ''bbbbbbbbbbbbbbbbbbbbbbbbbbbbbbbbbbbbbbbbbbbbbbbbbbbbbbbbbbbbbbbb'',
                      in_vout = 1, in_script = ''ab'', in_sequence = ''ffffffff''\<rparr>),
      outobj = (\<lambda>r. if r = 0
                then \<lparr>out_script = ''a914111111111111111111111111111111111111111187'',
                      out_satoshis = 99990000\<rparr>
                else \<lparr>out_script = ''51'', out_satoshis = 5000\<rparr>)\<rparr>"

definition oneInputTx :: TXOBJ where
  "oneInputTx = \<lparr>locktime = 0, version = 1, ins = [0], outs = [0]\<rparr>"

definition twoInputTx :: TXOBJ where
  "twoInputTx = \<lparr>locktime = 0, version = 1, ins = [0, 1], outs = [0, 1]\<rparr>"

definition noOutputTx :: TXOBJ where
  "noOutputTx = \<lparr>locktime = 0, version = 1, ins = [0], outs = []\<rparr>"

text \<open>
  A fixed choice of collaborators for running the model on concrete transactions: every
  call succeeds, with a 22-byte address payload, a 33-byte public key and a 64-byte raw
  signature whose first half has the high bit set.
\<close>

definition fixedCollaborators :: collaborators where
  "fixedCollaborators =
     \<lparr>bs58check_decode = (\<lambda>address. Inr (32 # 137 # replicate 20 17)),
      privKeyToPubKey = (\<lambda>privKey. Inr (toHex (2 # replicate 32 51))),
      pubKeyToAddr = (\<lambda>pubKey. Inr ''znTestAddress''),
      sha256x2 = (\<lambda>buffer. Inr (toHex (replicate 32 85))),
      secp256k1_sign = (\<lambda>msg key. Inr (200 # replicate 31 1 @ 7 # replicate 31 2))\<rparr>"

section \<open>Facts about buffers and hex strings\<close>

lemma lt16_cases:
  "d < (16::nat) \<Longrightarrow> d = 0 \<or> d = 1 \<or> d = 2 \<or> d = 3 \<or> d = 4 \<or> d = 5 \<or> d = 6 \<or> d = 7 \<or>
     d = 8 \<or> d = 9 \<or> d = 10 \<or> d = 11 \<or> d = 12 \<or> d = 13 \<or> d = 14 \<or> d = 15"
  by arith

lemma hexVal_hexDigit:
  assumes "d < 16"
  shows "hexVal (hexDigit d) = Some d"
  using lt16_cases [OF assms] by (elim disjE) (simp_all add: hexDigit_def hexVal_def)

lemma hexDigit_high:
  assumes "d < 16"
  shows "(hexDigit d \<in> set ''89abcdef'') = (8 \<le> d)"
  using lt16_cases [OF assms] by (elim disjE) (simp_all add: hexDigit_def)

lemma unat_byte_lt: "unat (b :: byte) < 256"
  using unsigned_less [of b, where 'a = nat] by simp

lemma length_hexByte: "length (hexByte b) = 2"
  by (simp add: hexByte_def)

lemma toHex_Nil: "toHex [] = []"
  by (simp add: toHex_def)

lemma toHex_Cons: "toHex (b # bs) = hexByte b @ toHex bs"
  by (simp add: toHex_def)

lemma toHex_append: "toHex (xs @ ys) = toHex xs @ toHex ys"
  by (simp add: toHex_def)

lemma length_toHex: "length (toHex bs) = 2 * length bs"
  by (induction bs) (simp_all add: toHex_Nil toHex_Cons length_hexByte)

lemma fromHex_hexByte: "fromHex (hexByte b @ s) = b # fromHex s"
proof -
  have hi: "unat b div 16 < 16" and lo: "unat b mod 16 < 16"
    using unat_byte_lt [of b] by simp_all
  have "of_nat (16 * (unat b div 16) + unat b mod 16) = b"
    by simp
  then show ?thesis
    by (simp add: hexByte_def hexVal_hexDigit [OF hi] hexVal_hexDigit [OF lo])
qed

lemma fromHex_toHex: "fromHex (toHex bs) = bs"
  by (induction bs) (simp_all add: toHex_Nil toHex_Cons fromHex_hexByte)

lemma take_toHex: "take (2 * n) (toHex bs) = toHex (take n bs)"
proof (induction bs arbitrary: n)
  case Nil
  then show ?case by (simp add: toHex_Nil)
next
  case (Cons b bs)
  show ?case
  proof (cases n)
    case 0
    then show ?thesis by (simp add: toHex_Nil)
  next
    case (Suc m)
    then show ?thesis
      using Cons.IH [of m] by (simp add: toHex_Cons length_hexByte)
  qed
qed

lemma drop_toHex: "drop (2 * n) (toHex bs) = toHex (drop n bs)"
proof (induction bs arbitrary: n)
  case Nil
  then show ?case by (simp add: toHex_Nil)
next
  case (Cons b bs)
  show ?case
  proof (cases n)
    case 0
    then show ?thesis by simp
  next
    case (Suc m)
    then show ?thesis
      using Cons.IH [of m] by (simp add: toHex_Cons length_hexByte)
  qed
qed

lemma getStringBufferLength_toHex:
  "getStringBufferLength (toHex bs) = toHex [of_nat (length bs)]"
  by (simp add: getStringBufferLength_def fromHex_toHex bufferFromArray_def)

lemma highNibbleSet_toHex:
  "highNibbleSet (toHex bs) = (case bs of [] \<Rightarrow> False | b # rest \<Rightarrow> 128 \<le> unat b)"
proof (cases bs)
  case Nil
  then show ?thesis by (simp add: toHex_Nil highNibbleSet_def)
next
  case (Cons b rest)
  have "unat b div 16 < 16" using unat_byte_lt [of b] by simp
  from hexDigit_high [OF this] have "(hexDigit (unat b div 16) \<in> set ''89abcdef'') = (128 \<le> unat b)"
    by simp arith
  then show ?thesis
    using Cons by (simp add: toHex_Cons hexByte_def highNibbleSet_def)
qed

lemma hex_literals:
  "''00'' = toHex [0]" "''02'' = toHex [2]" "''30'' = toHex [48]"
  by (simp_all add: toHex_def hexByte_def hexDigit_def)


section \<open>The varint codec\<close>

lemma length_numToBytes: "length (numToBytes n k) = k"
  by (induction k arbitrary: n) simp_all

lemma numToBytes_lt: "d \<in> set (numToBytes n k) \<Longrightarrow> d < 256"
  by (induction k arbitrary: n) auto

lemma leValue_numToBytes: "leValue (numToBytes n k) = n mod 256 ^ k"
proof (induction k arbitrary: n)
  case 0
  then show ?case by simp
next
  case (Suc k)
  have "n mod 256 + 256 * (n div 256 mod 256 ^ k) = n mod (256 * 256 ^ k)"
    by (simp add: mod_mult2_eq)
  then show ?case by (simp add: Suc.IH)
qed

lemma unat_bufferFromArray_numToBytes:
  "map unat (bufferFromArray (numToBytes n k)) = numToBytes n k"
proof -
  have "unat (of_nat d :: byte) = d" if "d \<in> set (numToBytes n k)" for d
    using numToBytes_lt [OF that] by (simp add: unat_of_nat)
  then show ?thesis
    by (simp add: bufferFromArray_def map_idI)
qed

lemma numToVarInt_marker:
  assumes "n < 256 ^ k"
  shows "length (bufferFromArray (numToBytes n k)) = k \<and>
         leValue (map unat (bufferFromArray (numToBytes n k))) = n"
  using assms
  by (simp add: unat_bufferFromArray_numToBytes leValue_numToBytes)
     (simp add: bufferFromArray_def length_numToBytes)

text \<open>
  Claim C5. For every \<open>n < 2^64\<close>, \<^verbatim>\<open>numToVarInt\<close> emits \<open>n\<close> as one byte when
  \<open>n < 253\<close>; otherwise one marker byte followed by the bytes of \<open>n\<close>, lowest first:
  marker 253 and 2 bytes for \<open>253 \<le> n < 65536\<close>, marker 254 and 4 bytes for
  \<open>65536 \<le> n < 2^32\<close>, and marker 253 again and 8 bytes for \<open>2^32 \<le> n < 2^64\<close>.
\<close>

theorem numToVarInt_encoding:
  "(n < 253 \<longrightarrow> numToVarInt n = toHex [of_nat n]) \<and>
   (253 \<le> n \<and> n < 65536 \<longrightarrow>
      (\<exists>bs. numToVarInt n = toHex (253 # bs) \<and> length bs = 2 \<and> leValue (map unat bs) = n)) \<and>
   (65536 \<le> n \<and> n < 2 ^ 32 \<longrightarrow>
      (\<exists>bs. numToVarInt n = toHex (254 # bs) \<and> length bs = 4 \<and> leValue (map unat bs) = n)) \<and>
   (2 ^ 32 \<le> n \<and> n < 2 ^ 64 \<longrightarrow>
      (\<exists>bs. numToVarInt n = toHex (253 # bs) \<and> length bs = 8 \<and> leValue (map unat bs) = n))"
proof (intro conjI impI)
  assume "n < 253"
  then show "numToVarInt n = toHex [of_nat n]"
    by (simp add: numToVarInt_def bufferFromArray_def)
next
  assume a: "253 \<le> n \<and> n < 65536"
  then have "n < 256 ^ 2" by simp
  from numToVarInt_marker [OF this] a
  show "\<exists>bs. numToVarInt n = toHex (253 # bs) \<and> length bs = 2 \<and> leValue (map unat bs) = n"
    by (intro exI [of _ "bufferFromArray (numToBytes n 2)"])
       (simp add: numToVarInt_def bufferFromArray_def)
next
  assume a: "65536 \<le> n \<and> n < 2 ^ 32"
  then have "n < 256 ^ 4" by simp
  from numToVarInt_marker [OF this] a
  show "\<exists>bs. numToVarInt n = toHex (254 # bs) \<and> length bs = 4 \<and> leValue (map unat bs) = n"
    by (intro exI [of _ "bufferFromArray (numToBytes n 4)"])
       (simp add: numToVarInt_def bufferFromArray_def)
next
  assume a: "2 ^ 32 \<le> n \<and> n < 2 ^ 64"
  then have "n < 256 ^ 8" by simp
  from numToVarInt_marker [OF this] a
  show "\<exists>bs. numToVarInt n = toHex (253 # bs) \<and> length bs = 8 \<and> leValue (map unat bs) = n"
    by (intro exI [of _ "bufferFromArray (numToBytes n 8)"])
       (simp add: numToVarInt_def bufferFromArray_def)
qed

theorem numToVarInt_encoding_witness:
  "numToVarInt 252 = toHex [252] \<and>
   (\<exists>bs. numToVarInt 300 = toHex (253 # bs) \<and> length bs = 2 \<and> leValue (map unat bs) = 300) \<and>
   (\<exists>bs. numToVarInt 70000 = toHex (254 # bs) \<and> length bs = 4 \<and> leValue (map unat bs) = 70000) \<and>
   (\<exists>bs. numToVarInt 5000000000 = toHex (253 # bs) \<and> length bs = 8 \<and>
          leValue (map unat bs) = 5000000000)"
  using numToVarInt_encoding [of 252] numToVarInt_encoding [of 300]
    numToVarInt_encoding [of 70000] numToVarInt_encoding [of 5000000000]
  by simp


section \<open>The signature encoding\<close>

lemma zero_prefix_toHex: "CHR ''0'' # CHR ''0'' # toHex v = toHex (0 # v)"
  by (simp add: toHex_Cons hexByte_def hexDigit_def)

lemma padded_toHex:
  "(if highNibbleSet (toHex v) then ''00'' @ toHex v else toHex v) = toHex (paddedInteger v)"
  by (cases v) (simp_all add: highNibbleSet_toHex paddedInteger_def zero_prefix_toHex)

lemma length_paddedInteger:
  "length (paddedInteger v) = length v \<or> length (paddedInteger v) = Suc (length v)"
  by (cases v) (simp_all add: paddedInteger_def)

lemma drop_paddedInteger:
  "drop (length (paddedInteger v) - length v) (paddedInteger v) = v"
  by (cases v) (simp_all add: paddedInteger_def)

lemma take64_toHex: "take 64 (toHex bs) = toHex (take 32 bs)"
  using take_toHex [of 32 bs] by simp

lemma drop64_toHex: "drop 64 (toHex bs) = toHex (drop 32 bs)"
  using drop_toHex [of 32 bs] by simp

lemma take128_toHex: "take 128 (toHex bs) = toHex (take 64 bs)"
  using take_toHex [of 64 bs] by simp

lemma encodeSignature_toHex:
  "encodeSignature (toHex sig) hashcode =
     (let r = paddedInteger (take 32 sig); s = paddedInteger (take 64 (drop 32 sig))
      in toHex ([48, of_nat (4 + length r + length s), 2, of_nat (length r)] @ r @
                [2, of_nat (length s)] @ s @ [of_nat hashcode]))"
proof -
  define r where "r = paddedInteger (take 32 sig)"
  define s where "s = paddedInteger (take 64 (drop 32 sig))"
  have b1: "(if highNibbleSet (take 64 (toHex sig)) then ''00'' @ take 64 (toHex sig)
             else take 64 (toHex sig)) = toHex r"
    by (simp only: take64_toHex padded_toHex r_def)
  have b2: "(if highNibbleSet (take 128 (drop 64 (toHex sig)))
             then ''00'' @ take 128 (drop 64 (toHex sig))
             else take 128 (drop 64 (toHex sig))) = toHex s"
    by (simp only: drop64_toHex take128_toHex padded_toHex s_def)
  have left: "''02'' @ getStringBufferLength (toHex r) @ toHex r = toHex ([2, of_nat (length r)] @ r)"
    by (simp add: getStringBufferLength_toHex toHex_Cons toHex_Nil hex_literals)
  have right: "''02'' @ getStringBufferLength (toHex s) @ toHex s = toHex ([2, of_nat (length s)] @ s)"
    by (simp add: getStringBufferLength_toHex toHex_Cons toHex_Nil hex_literals)
  have len: "length ([2, of_nat (length r)] @ r @ [2, of_nat (length s)] @ s) = 4 + length r + length s"
    by simp
  have "encodeSignature (toHex sig) hashcode =
          ''30'' @ getStringBufferLength (toHex ([2, of_nat (length r)] @ r) @ toHex ([2, of_nat (length s)] @ s)) @
          toHex ([2, of_nat (length r)] @ r) @ toHex ([2, of_nat (length s)] @ s) @
          toHex [of_nat hashcode]"
    unfolding encodeSignature_def Let_def b1 b2 left right
    by (simp add: bufferFromArray_def)
  also have "\<dots> = toHex ([48, of_nat (4 + length r + length s), 2, of_nat (length r)] @ r @
                [2, of_nat (length s)] @ s @ [of_nat hashcode])"
    unfolding toHex_append [symmetric] getStringBufferLength_toHex len
    by (simp add: toHex_Cons toHex_append hex_literals toHex_Nil ac_simps)
  finally show ?thesis
    by (simp add: r_def s_def Let_def)
qed

text \<open>
  Claim C6. For a raw 64-byte signature \<open>(r, s)\<close>, the signature that \<^verbatim>\<open>signTx\<close>
  encodes is: the SEQUENCE tag \<open>0x30\<close>, a length byte, the INTEGER tag \<open>0x02\<close>, a
  length byte and the bytes of \<open>r\<close>, the INTEGER tag \<open>0x02\<close>, a length byte and the bytes
  of \<open>s\<close>, where each of \<open>r\<close> and \<open>s\<close> is its 32 bytes prefixed with a zero byte exactly
  when the high bit of its first byte is set, followed by one byte equal to the hashcode.
  Dropping the padding gives back the raw values, and the signature before the trailing
  hashcode byte (\<^verbatim>\<open>sig\<close> in the source) is \<open>6 + len r' + len s'\<close> bytes long, \<open>r'\<close> and
  \<open>s'\<close> being the padded values.
\<close>

theorem encodeSignature_der:
  assumes "length sig = 64"
  shows "let r = paddedInteger (take 32 sig);
             s = paddedInteger (drop 32 sig);
             der = [48, of_nat (4 + length r + length s), 2, of_nat (length r)] @ r @
                   [2, of_nat (length s)] @ s
         in encodeSignature (toHex sig) hashcode = toHex der @ toHex [of_nat hashcode] \<and>
            length der = 6 + length r + length s \<and>
            length (fromHex (encodeSignature (toHex sig) hashcode)) = length der + 1 \<and>
            drop (length r - 32) r = take 32 sig \<and>
            drop (length s - 32) s = drop 32 sig"
proof -
  have t: "take 64 (drop 32 sig) = drop 32 sig"
    using assms by simp
  have l1: "length (take 32 sig) = 32" and l2: "length (drop 32 sig) = 32"
    using assms by simp_all
  have d1: "drop (length (paddedInteger (take 32 sig)) - 32) (paddedInteger (take 32 sig)) = take 32 sig"
    using drop_paddedInteger [of "take 32 sig"] l1 by simp
  have d2: "drop (length (paddedInteger (drop 32 sig)) - 32) (paddedInteger (drop 32 sig)) = drop 32 sig"
    using drop_paddedInteger [of "drop 32 sig"] l2 by simp
  show ?thesis
    unfolding Let_def encodeSignature_toHex t fromHex_toHex
    using d1 d2 by (simp add: toHex_append [symmetric])
qed

theorem encodeSignature_der_witness:
  "length (200 # replicate 31 1 @ 7 # replicate 31 (2::byte)) = 64 \<and>
   encodeSignature (toHex (200 # replicate 31 1 @ 7 # replicate 31 2)) 1 =
     toHex ([48, 69, 2, 33, 0, 200] @ replicate 31 1 @ [2, 32, 7] @ replicate 31 2 @ [1])"
  using encodeSignature_der [of "200 # replicate 31 1 @ 7 # replicate 31 2" 1]
  by (simp add: paddedInteger_def Let_def toHex_append [symmetric])

section \<open>Writing integers into buffers\<close>

lemma bufferAlloc_4: "bufferAlloc 4 = [0, 0, 0, 0]"
  by (simp add: bufferAlloc_def numeral_eq_Suc)

lemma bufferAlloc_8: "bufferAlloc 8 = [0, 0, 0, 0, 0, 0, 0, 0]"
  by (simp add: bufferAlloc_def numeral_eq_Suc)

lemma writeUInt16LE_4:
  "writeUInt16LE [a, b, c, d] v 0 =
     (if 65535 < v then Inl RangeError else Inr [of_nat (v mod 256), of_nat (v div 256 mod 256), c, d])"
  by (simp add: writeUInt16LE_def)

lemma writeUInt32LE_4:
  "writeUInt32LE [a, b, c, d] v 0 =
     (if 4294967295 < v then Inl RangeError
      else Inr [of_nat (v mod 256), of_nat (v div 256 mod 256), of_nat (v div 65536 mod 256),
                of_nat (v div 16777216 mod 256)])"
  by (simp add: writeUInt32LE_def)

lemma writeUInt32LE_8_lo:
  "writeUInt32LE [a, b, c, d, e, f, g, k] v 0 =
     (if 4294967295 < v then Inl RangeError
      else Inr [of_nat (v mod 256), of_nat (v div 256 mod 256), of_nat (v div 65536 mod 256),
                of_nat (v div 16777216 mod 256), e, f, g, k])"
  by (simp add: writeUInt32LE_def)

lemma writeUInt32LE_8_hi:
  "writeUInt32LE [a, b, c, d, e, f, g, k] v 4 =
     (if 4294967295 < v then Inl RangeError
      else Inr [a, b, c, d, of_nat (v mod 256), of_nat (v div 256 mod 256), of_nat (v div 65536 mod 256),
                of_nat (v div 16777216 mod 256)])"
  by (simp add: writeUInt32LE_def)

section \<open>The replay-protected script\<close>

lemma blockHash_bytes:
  "fromHex ''00000004bbe8504b7a8e7c6e23ea6fa57878ce946f9819752405d964175c4276'' =
     [0x00, 0x00, 0x00, 0x04, 0xbb, 0xe8, 0x50, 0x4b, 0x7a, 0x8e, 0x7c, 0x6e, 0x23, 0xea, 0x6f, 0xa5,
      0x78, 0x78, 0xce, 0x94, 0x6f, 0x98, 0x19, 0x75, 0x24, 0x05, 0xd9, 0x64, 0x17, 0x5c, 0x42, 0x76]"
  by (simp add: hexVal_def)

lemma blockHash_reversed:
  "toHex (rev [0x00, 0x00, 0x00, 0x04, 0xbb, 0xe8, 0x50, 0x4b, 0x7a, 0x8e, 0x7c, 0x6e, 0x23, 0xea, 0x6f, 0xa5,
      0x78, 0x78, 0xce, 0x94, 0x6f, 0x98, 0x19, 0x75, 0x24, 0x05, 0xd9, 0x64, 0x17, 0x5c, 0x42, 0x76]) =
   ''76425c1764d905247519986f94ce7878a56fea236e7c8e7a4b50e8bb04000000''"
  by (simp add: toHex_def hexByte_def hexDigit_def)

lemma blockHashHex:
  "toHex (rev (fromHex ''00000004bbe8504b7a8e7c6e23ea6fa57878ce946f9819752405d964175c4276'')) =
   ''76425c1764d905247519986f94ce7878a56fea236e7c8e7a4b50e8bb04000000''"
  by (simp only: blockHash_bytes blockHash_reversed)

lemma blockHashLength:
  "getStringBufferLength ''76425c1764d905247519986f94ce7878a56fea236e7c8e7a4b50e8bb04000000'' = ''20''"
proof -
  have "getStringBufferLength
          (toHex (rev (fromHex ''00000004bbe8504b7a8e7c6e23ea6fa57878ce946f9819752405d964175c4276''))) =
        toHex [of_nat (length
          (rev (fromHex ''00000004bbe8504b7a8e7c6e23ea6fa57878ce946f9819752405d964175c4276'')))]"
    by (rule getStringBufferLength_toHex)
  also have "length (rev (fromHex ''00000004bbe8504b7a8e7c6e23ea6fa57878ce946f9819752405d964175c4276'')) = 32"
    by (simp only: blockHash_bytes) simp
  finally show ?thesis
    by (simp only: blockHashHex) (simp add: toHex_def hexByte_def hexDigit_def)
qed

lemma blockHeight_buffer:
  "writeUInt32LE (bufferAlloc 4) 141575 0 = Inr [0x07, 0x29, 0x02, 0x00]"
  by (simp add: bufferAlloc_4 writeUInt32LE_4)

lemma blockHeight_fill: "bufferFill 3 [0x07, 0x29, 0x02, 0x00 :: byte] = [0x07, 0x29, 0x02]"
  by (simp add: bufferFill_def upt_rec)

lemma blockHeightHex: "toHex [0x07, 0x29, 0x02] = ''072902''"
  by (simp add: toHex_def hexByte_def hexDigit_def)

lemma blockHeightLength: "getStringBufferLength ''072902'' = ''03''"
  using getStringBufferLength_toHex [of "[0x07, 0x29, 0x02]"]
  by (simp only: blockHeightHex) (simp add: toHex_def hexByte_def hexDigit_def)

lemma blockHeight_bytes: "bufferFromArray (numToBytes 141575 3) = [0x07, 0x29, 0x02]"
  by (simp add: bufferFromArray_def numeral_3_eq_3)

lemma mkPubkeyHashReplayScript_value:
  "mkPubkeyHashReplayScript c address =
     bindE (bs58check_decode c address) (\<lambda>decoded.
       Inr (''76a9'' @ getStringBufferLength (drop 4 (toHex decoded)) @ drop 4 (toHex decoded) @
            ''88ac'' @
            ''2076425c1764d905247519986f94ce7878a56fea236e7c8e7a4b50e8bb0400000003072902b4''))"
proof (cases "bs58check_decode c address")
  case (Inl e)
  then show ?thesis
    by (simp add: mkPubkeyHashReplayScript_def bindE_def)
next
  case (Inr decoded)
  show ?thesis
    unfolding mkPubkeyHashReplayScript_def Inr bindE_def Let_def blockHeight_buffer blockHashHex
      blockHashLength
    by (simp add: blockHeight_fill blockHeightHex blockHeightLength OP_DUP_def OP_HASH160_def
        OP_EQUALVERIFY_def OP_CHECKSIG_def OP_CHECKBLOCKATHEIGHT_def)
qed

lemma replaySuffix_parts:
  "''2076425c1764d905247519986f94ce7878a56fea236e7c8e7a4b50e8bb0400000003072902b4'' =
     toHex (32 # rev (fromHex ''00000004bbe8504b7a8e7c6e23ea6fa57878ce946f9819752405d964175c4276'')) @
     toHex (3 # bufferFromArray (numToBytes 141575 3)) @ OP_CHECKBLOCKATHEIGHT"
proof -
  have "toHex (32 # rev (fromHex ''00000004bbe8504b7a8e7c6e23ea6fa57878ce946f9819752405d964175c4276'')) =
        ''20'' @ ''76425c1764d905247519986f94ce7878a56fea236e7c8e7a4b50e8bb04000000''"
    unfolding toHex_Cons blockHashHex by (simp add: hexByte_def hexDigit_def)
  moreover have "toHex (3 # bufferFromArray (numToBytes 141575 3)) = ''03072902''"
    unfolding blockHeight_bytes by (simp add: toHex_def hexByte_def hexDigit_def)
  ultimately show ?thesis
    by (simp add: OP_CHECKBLOCKATHEIGHT_def)
qed

text \<open>
  Claim C10. Whatever the address (and whatever the decoder returns for it), a script
  that \<^verbatim>\<open>mkPubkeyHashReplayScript\<close> produces ends with the same suffix: a push of the 32
  bytes of the hardcoded block hash
  \<^verbatim>\<open>00000004bbe8504b7a8e7c6e23ea6fa57878ce946f9819752405d964175c4276\<close> in reverse order, a
  push of the 3 low bytes of the hardcoded height 141575, lowest first, and
  \<^verbatim>\<open>OP_CHECKBLOCKATHEIGHT\<close>. The function produces a script whenever the address decodes.
\<close>

theorem mkPubkeyHashReplayScript_pinned_block:
  assumes "bs58check_decode c address = Inr decoded"
  shows "mkPubkeyHashReplayScript c address =
           Inr (''76a9'' @ getStringBufferLength (drop 4 (toHex decoded)) @ drop 4 (toHex decoded) @
                ''88ac'' @
                ''2076425c1764d905247519986f94ce7878a56fea236e7c8e7a4b50e8bb0400000003072902b4'') \<and>
         ''2076425c1764d905247519986f94ce7878a56fea236e7c8e7a4b50e8bb0400000003072902b4'' =
           toHex (32 # rev (fromHex ''00000004bbe8504b7a8e7c6e23ea6fa57878ce946f9819752405d964175c4276'')) @
           toHex (3 # bufferFromArray (numToBytes 141575 3)) @ OP_CHECKBLOCKATHEIGHT"
  using replaySuffix_parts by (simp add: mkPubkeyHashReplayScript_value assms bindE_def)

theorem mkPubkeyHashReplayScript_pinned_block_witness:
  "bs58check_decode fixedCollaborators ''znTestAddress'' = Inr (32 # 137 # replicate 20 17) \<and>
   mkPubkeyHashReplayScript fixedCollaborators ''znTestAddress'' =
     Inr (''76a9'' @ getStringBufferLength (drop 4 (toHex (32 # 137 # replicate 20 17))) @
          drop 4 (toHex (32 # 137 # replicate 20 17)) @ ''88ac'' @
          ''2076425c1764d905247519986f94ce7878a56fea236e7c8e7a4b50e8bb0400000003072902b4'')"
  using mkPubkeyHashReplayScript_pinned_block
    [of fixedCollaborators "''znTestAddress''" "32 # 137 # replicate 20 17"]
  by (simp add: fixedCollaborators_def)

section \<open>The serializer\<close>

lemma pow_2_64_minus_1_value: "pow_2_64_minus_1 = 18446744073709551616"
proof -
  have e: "doubleExponent 18446744073709551615 = 11"
    by (simp add: doubleExponent.simps)
  show ?thesis
    by (simp add: pow_2_64_minus_1_def js_number_def e Let_def)
qed

lemma ff_bytes: "toHex [255, 255, 255, 255, 255, 255, 255, 255] = ''ffffffffffffffff''"
  by (simp add: toHex_def hexByte_def hexDigit_def)

lemma serializeInput_value:
  "serializeInput i (acc, [a, b, 0, 0]) =
     (if 65535 < in_vout i then Inl RangeError
      else Inr (acc @ inputChunk i,
                [of_nat (in_vout i mod 256), of_nat (in_vout i div 256 mod 256), 0, 0]))"
  by (simp add: serializeInput_def writeUInt16LE_4 bindE_def inputChunk_def uint16Field_def)

lemma serializeInputs_fails:
  "\<not> list_all (\<lambda>r. in_vout (inobj h r) \<le> 65535) rs \<Longrightarrow>
   serializeInputs h rs (acc, [a, b, 0, 0]) = Inl RangeError"
proof (induction rs arbitrary: acc a b)
  case Nil
  then show ?case by simp
next
  case (Cons r rs)
  show ?case
  proof (cases "65535 < in_vout (inobj h r)")
    case True
    then show ?thesis by (simp add: serializeInput_value bindE_def)
  next
    case False
    with Cons.prems have "\<not> list_all (\<lambda>r. in_vout (inobj h r) \<le> 65535) rs"
      by simp
    from Cons.IH [OF this] False show ?thesis
      by (simp add: serializeInput_value bindE_def)
  qed
qed

lemma serializeInputs_succeeds:
  "list_all (\<lambda>r. in_vout (inobj h r) \<le> 65535) rs \<Longrightarrow>
   \<exists>a' b'. serializeInputs h rs (acc, [a, b, 0, 0]) =
     Inr (acc @ concat (map (\<lambda>r. inputChunk (inobj h r)) rs), [a', b', 0, 0])"
proof (induction rs arbitrary: acc a b)
  case Nil
  then show ?case by simp
next
  case (Cons r rs)
  then have ok: "\<not> 65535 < in_vout (inobj h r)"
    and rest: "list_all (\<lambda>r. in_vout (inobj h r) \<le> 65535) rs"
    by simp_all
  from Cons.IH [OF rest] obtain a' b' where
    "serializeInputs h rs
       (acc @ inputChunk (inobj h r),
        [of_nat (in_vout (inobj h r) mod 256), of_nat (in_vout (inobj h r) div 256 mod 256), 0, 0]) =
     Inr ((acc @ inputChunk (inobj h r)) @ concat (map (\<lambda>r. inputChunk (inobj h r)) rs),
          [a', b', 0, 0])"
    by blast
  with ok show ?case
    by (simp add: serializeInput_value bindE_def)
qed

lemma serializeOutput_value:
  "serializeOutput o1 acc =
     (if out_satoshis o1 = pow_2_64_minus_1 \<or> out_satoshis o1 \<le> 4294967295
      then Inr (acc @ outputChunk o1) else Inl RangeError)"
  by (simp add: serializeOutput_def bufferAlloc_8 writeUInt32LE_8_lo writeUInt32LE_8_hi bindE_def
      outputChunk_def amountField_def ff_bytes Let_def)

lemma serializeOutputs_value:
  "serializeOutputs h rs acc =
     (if list_all (\<lambda>r. out_satoshis (outobj h r) = pow_2_64_minus_1 \<or>
                        out_satoshis (outobj h r) \<le> 4294967295) rs
      then Inr (acc @ concat (map (\<lambda>r. outputChunk (outobj h r)) rs))
      else Inl RangeError)"
  by (induction rs arbitrary: acc) (simp_all add: serializeOutput_value bindE_def)

lemma serializeTx_value:
  "serializeTx h txObj = (if serializable h txObj then Inr (txLayout h txObj) else Inl RangeError)"
proof -
  define buf where
    "buf = [of_nat (version txObj mod 256), of_nat (version txObj div 256 mod 256), 0, 0 :: byte]"
  have start: "serializeTx h txObj =
      (if 65535 < version txObj then Inl RangeError
       else bindE (serializeInputs h (ins txObj) (toHex buf @ numToVarInt (length (ins txObj)), buf))
        (\<lambda>st. case st of (serializedTx, buf16) \<Rightarrow>
          bindE (serializeOutputs h (outs txObj) (serializedTx @ numToVarInt (length (outs txObj))))
           (\<lambda>serializedTx.
             bindE (writeUInt16LE buf16 (locktime txObj) 0) (\<lambda>buf16.
             Inr (serializedTx @ toHex buf16)))))"
    unfolding serializeTx_def bufferAlloc_4 writeUInt16LE_4 Let_def buf_def
    by (simp add: bindE_def)
  show ?thesis
  proof (cases "65535 < version txObj")
    case True
    then show ?thesis by (simp add: start serializable_def)
  next
    case v: False
    show ?thesis
    proof (cases "list_all (\<lambda>r. in_vout (inobj h r) \<le> 65535) (ins txObj)")
      case False
      from serializeInputs_fails [OF False] show ?thesis
        using v False by (simp add: start buf_def bindE_def serializable_def)
    next
      case True
      from serializeInputs_succeeds [OF True, of "toHex buf @ numToVarInt (length (ins txObj))"]
      obtain a' b' where
        "serializeInputs h (ins txObj) (toHex buf @ numToVarInt (length (ins txObj)), buf) =
           Inr ((toHex buf @ numToVarInt (length (ins txObj))) @
                concat (map (\<lambda>r. inputChunk (inobj h r)) (ins txObj)), [a', b', 0, 0])"
        unfolding buf_def by blast
      then show ?thesis
        using v True
        by (simp add: start bindE_def serializeOutputs_value writeUInt16LE_4 serializable_def
            txLayout_def uint16Field_def buf_def)
    qed
  qed
qed

section \<open>The effect of the preimage builder on the heap\<close>

lemma heap_eqI: "inobj h = inobj h' \<Longrightarrow> outobj h = outobj h' \<Longrightarrow> h = (h' :: heap)"
  by simp

lemma inobj_set_in_script:
  "inobj (set_in_script h r s) = (inobj h)(r := (inobj h r)\<lparr>in_script := s\<rparr>)"
  by (simp add: set_in_script_def)

lemma outobj_set_in_script: "outobj (set_in_script h r s) = outobj h"
  by (simp add: set_in_script_def)

lemma inobj_blank_out: "inobj (blank_out h r) = inobj h"
  by (simp add: blank_out_def)

lemma outobj_blank_out: "outobj (blank_out h r) = (outobj h)(r := blankedOutput (outobj h r))"
  by (simp add: blank_out_def blankedOutput_def)

lemma blankedOutput_idem: "blankedOutput (blankedOutput o1) = blankedOutput o1"
  by (simp add: blankedOutput_def)

lemma inobj_clearScripts:
  "inobj (clearScripts h rs) =
     (\<lambda>r. if r \<in> set rs then (inobj h r)\<lparr>in_script := ''''\<rparr> else inobj h r)"
  by (induction rs arbitrary: h) (auto simp: inobj_set_in_script fun_eq_iff)

lemma outobj_clearScripts: "outobj (clearScripts h rs) = outobj h"
  by (induction rs arbitrary: h) (simp_all add: outobj_set_in_script)

lemma inobj_blankOuts: "inobj (snd (blankOuts h os j k)) = inobj h"
  by (induction k arbitrary: h j) (simp_all add: inobj_blank_out)

lemma fst_blankOuts:
  "fst (blankOuts h os j k) = (if k = 0 \<or> j + k \<le> length os then Inr () else Inl TypeError)"
  by (induction k arbitrary: h j) auto

lemma outobj_blankOuts:
  "outobj (snd (blankOuts h os j k)) =
     (\<lambda>r. if r \<in> set (take k (drop j os)) then blankedOutput (outobj h r) else outobj h r)"
proof (induction k arbitrary: h j)
  case 0
  then show ?case by simp
next
  case (Suc k)
  show ?case
  proof (cases "j < length os")
    case True
    then have split: "take (Suc k) (drop j os) = os ! j # take k (drop (Suc j) os)"
      by (simp add: Cons_nth_drop_Suc [symmetric])
    show ?thesis
      using True
      by (auto simp: Suc.IH split outobj_blank_out blankedOutput_idem fun_eq_iff)
  next
    case False
    then show ?thesis by simp
  qed
qed

lemma signatureForm_out_of_range:
  "length (ins txObj) \<le> i \<Longrightarrow>
   signatureForm h txObj i script hashcode = (Inl TypeError, clearScripts h (ins txObj))"
  by (simp add: signatureForm_def Let_def)

lemma signatureForm_value:
  assumes "i < length (ins txObj)"
  shows "signatureForm h txObj i script hashcode =
           (signatureFormResult txObj i hashcode,
            \<lparr>inobj = preimageInputs txObj i script (inobj h),
             outobj = preimageOutputs txObj hashcode (outobj h)\<rparr>)"
proof -
  define h2 where "h2 = set_in_script (clearScripts h (ins txObj)) (ins txObj ! i) script"
  have in2: "inobj h2 = preimageInputs txObj i script (inobj h)"
    by (auto simp: h2_def inobj_set_in_script inobj_clearScripts preimageInputs_def fun_eq_iff)
  have out2: "outobj h2 = outobj h"
    by (simp add: h2_def outobj_set_in_script outobj_clearScripts)
  have h2_eq: "hashcode \<noteq> SIGHASH_SINGLE \<Longrightarrow>
      h2 = \<lparr>inobj = preimageInputs txObj i script (inobj h),
            outobj = preimageOutputs txObj hashcode (outobj h)\<rparr>"
    by (rule heap_eqI) (simp_all add: in2 out2 preimageOutputs_def fun_eq_iff)
  define os where "os = take (length (ins txObj)) (outs txObj)"
  define b where "b = blankOuts h2 os 0 (length (ins txObj) - 1)"
  have tk: "take (length (ins txObj) - 1) os = take (length (ins txObj) - 1) (outs txObj)"
    by (simp add: os_def min_def)
  have b_heap: "snd b = \<lparr>inobj = preimageInputs txObj i script (inobj h),
            outobj = preimageOutputs txObj SIGHASH_SINGLE (outobj h)\<rparr>"
    using tk
    by (intro heap_eqI)
       (simp_all add: b_def inobj_blankOuts outobj_blankOuts in2 out2 preimageOutputs_def fun_eq_iff)
  have b_res: "fst b = (if length (outs txObj) + 1 < length (ins txObj) then Inl TypeError else Inr ())"
    using assms by (auto simp: b_def fst_blankOuts os_def)
  show ?thesis
  proof (cases "hashcode = SIGHASH_SINGLE")
    case False
    then show ?thesis
      using assms h2_eq
      by (simp add: signatureForm_def Let_def h2_def [symmetric] signatureFormResult_def)
  next
    case True
    have "signatureForm h txObj i script hashcode =
            (case b of (Inl e, h3) \<Rightarrow> (Inl e, h3)
             | (Inr u, h3) \<Rightarrow>
                 (Inr (txObj\<lparr>outs := take (length (ins txObj)) (outs txObj)\<rparr>), h3))"
      using assms True
      by (simp add: signatureForm_def Let_def h2_def [symmetric] os_def b_def SIGHASH_SINGLE_def
          SIGHASH_NONE_def)
    also have "\<dots> = (signatureFormResult txObj i hashcode, snd b)"
      using b_res True
      by (cases b) (auto simp: signatureFormResult_def os_def SIGHASH_SINGLE_def SIGHASH_NONE_def
          split: sum.splits)
    finally show ?thesis
      using True by (simp add: b_heap)
  qed
qed

section \<open>The sighash preimage builder\<close>

text \<open>
  Claim C2. \<^verbatim>\<open>signatureForm\<close> is claimed to leave the caller's transaction unchanged. On
  the two-input transaction, called for input 0 with substitute script \<^verbatim>\<open>cd\<close>, it
  returns a transaction over the same objects; afterwards the caller's input 0 holds
  \<^verbatim>\<open>cd\<close>, the caller's input 1 has lost its script \<^verbatim>\<open>ab\<close>, and in
  \<^verbatim>\<open>SIGHASH_SINGLE\<close> mode the caller's output 0 has lost its amount and its script.
\<close>

theorem signatureForm_mutates_original:
  "in_script (inobj exampleHeap 0) = '''' \<and> in_script (inobj exampleHeap 1) = ''ab'' \<and>
   out_satoshis (outobj exampleHeap 0) = 99990000 \<and>
   fst (signatureForm exampleHeap twoInputTx 0 ''cd'' SIGHASH_ALL) = Inr twoInputTx \<and>
   in_script (inobj (snd (signatureForm exampleHeap twoInputTx 0 ''cd'' SIGHASH_ALL)) 0) = ''cd'' \<and>
   in_script (inobj (snd (signatureForm exampleHeap twoInputTx 0 ''cd'' SIGHASH_ALL)) 1) = '''' \<and>
   outobj (snd (signatureForm exampleHeap twoInputTx 0 ''cd'' SIGHASH_SINGLE)) 0 =
     \<lparr>out_script = '''', out_satoshis = pow_2_64_minus_1\<rparr>"
proof -
  have i: "0 < length (ins twoInputTx)"
    by (simp add: twoInputTx_def)
  show ?thesis
    unfolding signatureForm_value [OF i]
    by (simp add: exampleHeap_def twoInputTx_def signatureFormResult_def preimageInputs_def
        preimageOutputs_def blankedOutput_def SIGHASH_ALL_def SIGHASH_NONE_def SIGHASH_SINGLE_def
        SIGHASH_ANYONECANPAY_def)
qed

text \<open>
  Claim C3. In \<^verbatim>\<open>SIGHASH_SINGLE\<close> mode the preimage is claimed to keep
  \<open>inputIndex + 1\<close> outputs, every one before the last retained one overwritten with the
  placeholder amount and an empty script, and the last retained one, the output at the
  position of the signed input, unchanged. The \<^verbatim>\<open>SIGHASH_SINGLE\<close> branch of
  \<^verbatim>\<open>signatureForm\<close> never reads the index. For input 0 of the transaction with two
  inputs and two outputs it keeps both outputs, overwrites output 0, the one at the
  position of the signed input, and leaves output 1; with two inputs and one output it
  overwrites the only output it keeps.
\<close>

theorem signatureForm_single_ignores_index:
  "length (ins twoInputTx) = 2 \<and> length (outs twoInputTx) = 2 \<and>
   outobj exampleHeap (outs twoInputTx ! 0) =
     \<lparr>out_script = ''a914111111111111111111111111111111111111111187'', out_satoshis = 99990000\<rparr> \<and>
   fst (signatureForm exampleHeap twoInputTx 0 ''cd'' SIGHASH_SINGLE) = Inr twoInputTx \<and>
   outobj (snd (signatureForm exampleHeap twoInputTx 0 ''cd'' SIGHASH_SINGLE)) (outs twoInputTx ! 0) =
     \<lparr>out_script = [], out_satoshis = pow_2_64_minus_1\<rparr> \<and>
   outobj (snd (signatureForm exampleHeap twoInputTx 0 ''cd'' SIGHASH_SINGLE)) (outs twoInputTx ! 1) =
     \<lparr>out_script = ''51'', out_satoshis = 5000\<rparr> \<and>
   fst (signatureForm exampleHeap (twoInputTx\<lparr>outs := [0]\<rparr>) 0 ''cd'' SIGHASH_SINGLE) =
     Inr (twoInputTx\<lparr>outs := [0]\<rparr>) \<and>
   outobj (snd (signatureForm exampleHeap (twoInputTx\<lparr>outs := [0]\<rparr>) 0 ''cd'' SIGHASH_SINGLE)) 0 =
     \<lparr>out_script = [], out_satoshis = pow_2_64_minus_1\<rparr>"
proof -
  have i: "0 < length (ins twoInputTx)" "0 < length (ins (twoInputTx\<lparr>outs := [0]\<rparr>))"
    by (simp_all add: twoInputTx_def)
  show ?thesis
    unfolding signatureForm_value [OF i(1)] signatureForm_value [OF i(2)]
    by (simp add: exampleHeap_def twoInputTx_def signatureFormResult_def preimageOutputs_def
        blankedOutput_def SIGHASH_NONE_def SIGHASH_SINGLE_def)
qed

lemma signatureForm_single_throws:
  assumes "length (outs txObj) < i + 1"
    and "\<not> (Suc i = length (ins txObj) \<and> length (outs txObj) = i)"
  shows "fst (signatureForm h txObj i script SIGHASH_SINGLE) = Inl TypeError"
proof (cases "i < length (ins txObj)")
  case True
  with assms have "length (outs txObj) + 1 < length (ins txObj)"
    by arith
  with True show ?thesis
    by (simp add: signatureForm_value signatureFormResult_def SIGHASH_NONE_def SIGHASH_SINGLE_def)
next
  case False
  then show ?thesis
    by (simp add: signatureForm_out_of_range)
qed

section \<open>The signer\<close>

lemma preimageInputs_absorb:
  "preimageInputs txObj i script
     ((preimageInputs txObj i script f)
        (ins txObj ! i := (preimageInputs txObj i script f (ins txObj ! i))\<lparr>in_script := u\<rparr>)) =
   preimageInputs txObj i script f"
  by (auto simp: preimageInputs_def fun_eq_iff)

lemma preimageOutputs_idem:
  "preimageOutputs txObj hashcode (preimageOutputs txObj hashcode g) =
   preimageOutputs txObj hashcode g"
  by (auto simp: preimageOutputs_def blankedOutput_idem fun_eq_iff)

lemma signatureForm_after_signing:
  assumes "i < length (ins txObj)"
  shows "signatureForm
           (set_in_script (snd (signatureForm h txObj i script hashcode)) (ins txObj ! i) u)
           txObj i script hashcode =
         signatureForm h txObj i script hashcode"
  unfolding signatureForm_value [OF assms]
  by (simp add: inobj_set_in_script outobj_set_in_script preimageInputs_absorb preimageOutputs_idem)

text \<open>The steps of a call of \<^verbatim>\<open>signTx\<close> that returns.\<close>

lemma signTx_returns:
  assumes "signTx c h txObj i privKey hashcode_arg = (Inr txObj', h')"
  shows "\<exists>buf16 pubKey address script signingTx signingTxHex msg signature.
           writeUInt16LE (bufferAlloc 4)
             (case hashcode_arg of None \<Rightarrow> SIGHASH_ALL | Some code \<Rightarrow> code) 0 = Inr buf16 \<and>
           privKeyToPubKey c privKey = Inr pubKey \<and>
           pubKeyToAddr c pubKey = Inr address \<and>
           mkPubkeyHashReplayScript c address = Inr script \<and>
           fst (signatureForm h txObj i script
             (case hashcode_arg of None \<Rightarrow> SIGHASH_ALL | Some code \<Rightarrow> code)) = Inr signingTx \<and>
           serializeTx (snd (signatureForm h txObj i script
             (case hashcode_arg of None \<Rightarrow> SIGHASH_ALL | Some code \<Rightarrow> code))) signingTx =
             Inr signingTxHex \<and>
           sha256x2 c (fromHex signingTxHex @ buf16) = Inr msg \<and>
           secp256k1_sign c (fromHex msg) (fromHex privKey) = Inr signature \<and>
           i < length (ins txObj) \<and> txObj' = txObj \<and>
           h' = set_in_script
                  (snd (signatureForm h txObj i script
                     (case hashcode_arg of None \<Rightarrow> SIGHASH_ALL | Some code \<Rightarrow> code)))
                  (ins txObj ! i)
                  (getStringBufferLength
                     (encodeSignature (toHex signature)
                        (case hashcode_arg of None \<Rightarrow> SIGHASH_ALL | Some code \<Rightarrow> code)) @
                   encodeSignature (toHex signature)
                     (case hashcode_arg of None \<Rightarrow> SIGHASH_ALL | Some code \<Rightarrow> code) @
                   getStringBufferLength pubKey @ pubKey)"
  using assms
  by (auto simp: signTx_def tryE_def Let_def split: sum.splits prod.splits if_splits)

lemma signTx_heap:
  assumes "signTx c h txObj i privKey hashcode_arg = (Inr txObj', h')"
  shows "\<exists>script u.
           inobj h' = (preimageInputs txObj i script (inobj h))
             (ins txObj ! i := (preimageInputs txObj i script (inobj h) (ins txObj ! i))\<lparr>in_script := u\<rparr>) \<and>
           outobj h' = preimageOutputs txObj
             (case hashcode_arg of None \<Rightarrow> SIGHASH_ALL | Some code \<Rightarrow> code) (outobj h)"
proof -
  from signTx_returns [OF assms] obtain script u where
    i: "i < length (ins txObj)" and
    h': "h' = set_in_script
                  (snd (signatureForm h txObj i script
                     (case hashcode_arg of None \<Rightarrow> SIGHASH_ALL | Some code \<Rightarrow> code)))
                  (ins txObj ! i) u"
    by blast
  show ?thesis
    unfolding h' signatureForm_value [OF i]
    by (intro exI [of _ script] exI [of _ u])
       (simp add: inobj_set_in_script outobj_set_in_script)
qed

lemma signTx_example_returns:
  "hashcode = SIGHASH_ALL \<or> hashcode = SIGHASH_SINGLE \<Longrightarrow>
   fst (signTx fixedCollaborators exampleHeap twoInputTx 0 privKey (Some hashcode)) = Inr twoInputTx"
  by (auto simp: signTx_def tryE_def Let_def fixedCollaborators_def mkPubkeyHashReplayScript_value
      bindE_def signatureForm_value serializeTx_value serializable_def bufferAlloc_4
      writeUInt16LE_4 SIGHASH_ALL_def SIGHASH_NONE_def SIGHASH_SINGLE_def SIGHASH_ANYONECANPAY_def
      twoInputTx_def exampleHeap_def preimageInputs_def preimageOutputs_def signatureFormResult_def
      blankedOutput_def)

text \<open>
  Claim C4. \<^verbatim>\<open>signTx\<close> is claimed to change nothing but the script of the input it signs.
  Signing input 0 of the two-input transaction returns normally, and afterwards the
  script \<^verbatim>\<open>ab\<close> that input 1 carried is empty; in \<^verbatim>\<open>SIGHASH_SINGLE\<close> mode the amount
  99990000 and the script of output 0 are overwritten with the placeholder as well.
\<close>

theorem signTx_mutates_other_fields:
  "in_script (inobj exampleHeap 1) = ''ab'' \<and>
   out_satoshis (outobj exampleHeap 0) = 99990000 \<and>
   fst (signTx fixedCollaborators exampleHeap twoInputTx 0 ''0c'' (Some SIGHASH_ALL)) = Inr twoInputTx \<and>
   in_script (inobj (snd (signTx fixedCollaborators exampleHeap twoInputTx 0 ''0c''
     (Some SIGHASH_ALL))) 1) = [] \<and>
   fst (signTx fixedCollaborators exampleHeap twoInputTx 0 ''0c'' (Some SIGHASH_SINGLE)) = Inr twoInputTx \<and>
   outobj (snd (signTx fixedCollaborators exampleHeap twoInputTx 0 ''0c'' (Some SIGHASH_SINGLE))) 0 =
     \<lparr>out_script = [], out_satoshis = pow_2_64_minus_1\<rparr>"
proof -
  have r_all: "fst (signTx fixedCollaborators exampleHeap twoInputTx 0 ''0c'' (Some SIGHASH_ALL)) =
      Inr twoInputTx"
    by (rule signTx_example_returns) simp
  have r_single: "fst (signTx fixedCollaborators exampleHeap twoInputTx 0 ''0c'' (Some SIGHASH_SINGLE)) =
      Inr twoInputTx"
    by (rule signTx_example_returns) simp
  have all: "signTx fixedCollaborators exampleHeap twoInputTx 0 ''0c'' (Some SIGHASH_ALL) =
      (Inr twoInputTx, snd (signTx fixedCollaborators exampleHeap twoInputTx 0 ''0c'' (Some SIGHASH_ALL)))"
    using r_all by (simp add: prod_eq_iff)
  have single: "signTx fixedCollaborators exampleHeap twoInputTx 0 ''0c'' (Some SIGHASH_SINGLE) =
      (Inr twoInputTx, snd (signTx fixedCollaborators exampleHeap twoInputTx 0 ''0c'' (Some SIGHASH_SINGLE)))"
    using r_single by (simp add: prod_eq_iff)
  have before: "in_script (inobj exampleHeap 1) = ''ab''"
    "out_satoshis (outobj exampleHeap 0) = 99990000"
    by (simp_all add: exampleHeap_def)
  from signTx_heap [OF all] have cleared:
    "in_script (inobj (snd (signTx fixedCollaborators exampleHeap twoInputTx 0 ''0c''
       (Some SIGHASH_ALL))) 1) = []"
    by (auto simp: preimageInputs_def twoInputTx_def)
  from signTx_heap [OF single] have blanked:
    "outobj (snd (signTx fixedCollaborators exampleHeap twoInputTx 0 ''0c'' (Some SIGHASH_SINGLE))) 0 =
       \<lparr>out_script = [], out_satoshis = pow_2_64_minus_1\<rparr>"
    by (auto simp: preimageOutputs_def twoInputTx_def blankedOutput_def exampleHeap_def)
  show ?thesis
    by (intro conjI before r_all r_single cleared blanked)
qed

text \<open>
  Claim C9. When \<^verbatim>\<open>signTx\<close> has returned, calling it again with the same arguments on
  the transaction as the first call left it returns again and leaves every object as it
  was after the first call; in particular the unlocking script of the signed input is
  the same string. The collaborators are functions: the same digest and key give the same
  raw signature.
\<close>

theorem signTx_twice:
  assumes "signTx c h txObj i privKey hashcode_arg = (Inr txObj', h')"
  shows "signTx c h' txObj' i privKey hashcode_arg = (Inr txObj', h') \<and>
         in_script (inobj (snd (signTx c h' txObj' i privKey hashcode_arg)) (ins txObj ! i)) =
         in_script (inobj h' (ins txObj ! i))"
proof -
  define hashcode where
    "hashcode = (case hashcode_arg of None \<Rightarrow> SIGHASH_ALL | Some code \<Rightarrow> code)"
  from signTx_returns [OF assms]
  obtain buf16 pubKey address script signingTx signingTxHex msg signature where
    steps: "writeUInt16LE (bufferAlloc 4) hashcode 0 = Inr buf16"
      "privKeyToPubKey c privKey = Inr pubKey"
      "pubKeyToAddr c pubKey = Inr address"
      "mkPubkeyHashReplayScript c address = Inr script"
      "fst (signatureForm h txObj i script hashcode) = Inr signingTx"
      "serializeTx (snd (signatureForm h txObj i script hashcode)) signingTx = Inr signingTxHex"
      "sha256x2 c (fromHex signingTxHex @ buf16) = Inr msg"
      "secp256k1_sign c (fromHex msg) (fromHex privKey) = Inr signature"
    and i: "i < length (ins txObj)" and tx: "txObj' = txObj"
    and h': "h' = set_in_script (snd (signatureForm h txObj i script hashcode)) (ins txObj ! i)
                  (getStringBufferLength (encodeSignature (toHex signature) hashcode) @
                   encodeSignature (toHex signature) hashcode @
                   getStringBufferLength pubKey @ pubKey)"
    unfolding hashcode_def by blast
  define h1 where "h1 = snd (signatureForm h txObj i script hashcode)"
  have "signatureForm h' txObj i script hashcode = signatureForm h txObj i script hashcode"
    unfolding h' by (rule signatureForm_after_signing [OF i])
  then have again: "signatureForm h' txObj i script hashcode = (Inr signingTx, h1)"
    using steps(5) by (simp add: h1_def prod_eq_iff)
  have "signTx c h' txObj i privKey hashcode_arg =
          (Inr txObj,
           set_in_script h1 (ins txObj ! i)
             (getStringBufferLength (encodeSignature (toHex signature) hashcode) @
              encodeSignature (toHex signature) hashcode @
              getStringBufferLength pubKey @ pubKey))"
    using steps(1-4,6-8) i
    by (simp add: signTx_def tryE_def Let_def hashcode_def [symmetric] again h1_def [symmetric])
  then have "signTx c h' txObj i privKey hashcode_arg = (Inr txObj, h')"
    by (simp add: h' h1_def)
  then show ?thesis
    by (simp add: tx)
qed

theorem signTx_twice_witness:
  "fst (signTx fixedCollaborators exampleHeap twoInputTx 0 ''0c'' (Some SIGHASH_ALL)) = Inr twoInputTx \<and>
   signTx fixedCollaborators
     (snd (signTx fixedCollaborators exampleHeap twoInputTx 0 ''0c'' (Some SIGHASH_ALL)))
     twoInputTx 0 ''0c'' (Some SIGHASH_ALL) =
   (Inr twoInputTx, snd (signTx fixedCollaborators exampleHeap twoInputTx 0 ''0c'' (Some SIGHASH_ALL)))"
proof -
  have r: "fst (signTx fixedCollaborators exampleHeap twoInputTx 0 ''0c'' (Some SIGHASH_ALL)) =
      Inr twoInputTx"
    by (rule signTx_example_returns) simp
  then have "signTx fixedCollaborators exampleHeap twoInputTx 0 ''0c'' (Some SIGHASH_ALL) =
      (Inr twoInputTx, snd (signTx fixedCollaborators exampleHeap twoInputTx 0 ''0c'' (Some SIGHASH_ALL)))"
    by (simp add: prod_eq_iff)
  from signTx_twice [OF this] r show ?thesis
    by simp
qed

lemma signTx_noOutput_returns:
  "fst (signTx fixedCollaborators exampleHeap noOutputTx 0 privKey (Some SIGHASH_SINGLE)) =
     Inr noOutputTx"
  by (auto simp: signTx_def tryE_def Let_def fixedCollaborators_def mkPubkeyHashReplayScript_value
      bindE_def signatureForm_value serializeTx_value serializable_def bufferAlloc_4
      writeUInt16LE_4 SIGHASH_ALL_def SIGHASH_NONE_def SIGHASH_SINGLE_def SIGHASH_ANYONECANPAY_def
      noOutputTx_def exampleHeap_def preimageInputs_def preimageOutputs_def signatureFormResult_def
      blankedOutput_def)

lemma getStringBufferLength_not_empty: "getStringBufferLength s \<noteq> []"
  by (simp add: getStringBufferLength_def bufferFromArray_def toHex_Cons hexByte_def Let_def)

text \<open>
  Claim C8, as stated, fails. With one input and no output, \<^verbatim>\<open>SIGHASH_SINGLE\<close> for
  input 0 has fewer outputs than \<open>0 + 1\<close>; \<^verbatim>\<open>signatureForm\<close> returns a preimage and
  \<^verbatim>\<open>signTx\<close> returns with a script written into the input, without any error. With two
  inputs and no output the call for input 0 does throw, and what it throws is the
  \<^verbatim>\<open>TypeError\<close> of assigning to a field of a missing array element.
\<close>

theorem signatureForm_single_missing_output_counterexample:
  "length (outs noOutputTx) < 0 + 1 \<and>
   fst (signatureForm exampleHeap noOutputTx 0 ''cd'' SIGHASH_SINGLE) = Inr noOutputTx \<and>
   fst (signTx fixedCollaborators exampleHeap noOutputTx 0 ''0c'' (Some SIGHASH_SINGLE)) =
     Inr noOutputTx \<and>
   in_script (inobj (snd (signTx fixedCollaborators exampleHeap noOutputTx 0 ''0c''
     (Some SIGHASH_SINGLE))) 0) \<noteq> [] \<and>
   length (outs (twoInputTx\<lparr>outs := []\<rparr>)) < 0 + 1 \<and>
   fst (signatureForm exampleHeap (twoInputTx\<lparr>outs := []\<rparr>) 0 ''cd'' SIGHASH_SINGLE) =
     Inl TypeError"
proof -
  have i: "0 < length (ins noOutputTx)"
    by (simp add: noOutputTx_def)
  have len: "length (outs noOutputTx) < 0 + 1" "length (outs (twoInputTx\<lparr>outs := []\<rparr>)) < 0 + 1"
    by (simp_all add: noOutputTx_def)
  have pre: "fst (signatureForm exampleHeap noOutputTx 0 ''cd'' SIGHASH_SINGLE) = Inr noOutputTx"
    unfolding signatureForm_value [OF i]
    by (simp add: noOutputTx_def signatureFormResult_def SIGHASH_NONE_def SIGHASH_SINGLE_def)
  have signed: "fst (signTx fixedCollaborators exampleHeap noOutputTx 0 ''0c'' (Some SIGHASH_SINGLE)) =
      Inr noOutputTx"
    by (rule signTx_noOutput_returns)
  then have "signTx fixedCollaborators exampleHeap noOutputTx 0 ''0c'' (Some SIGHASH_SINGLE) =
      (Inr noOutputTx,
       snd (signTx fixedCollaborators exampleHeap noOutputTx 0 ''0c'' (Some SIGHASH_SINGLE)))"
    by (simp add: prod_eq_iff)
  from signTx_returns [OF this] obtain h1 sig1 rest where
    "snd (signTx fixedCollaborators exampleHeap noOutputTx 0 ''0c'' (Some SIGHASH_SINGLE)) =
       set_in_script h1 (ins noOutputTx ! 0) (getStringBufferLength sig1 @ rest)"
    by blast
  then have script:
    "in_script (inobj (snd (signTx fixedCollaborators exampleHeap noOutputTx 0 ''0c''
       (Some SIGHASH_SINGLE))) 0) \<noteq> []"
    by (simp add: inobj_set_in_script noOutputTx_def getStringBufferLength_not_empty)
  have thrown: "fst (signatureForm exampleHeap (twoInputTx\<lparr>outs := []\<rparr>) 0 ''cd'' SIGHASH_SINGLE) =
      Inl TypeError"
    by (rule signatureForm_single_throws) (simp_all add: twoInputTx_def)
  show ?thesis
    by (intro conjI len pre signed script thrown)
qed

text \<open>
  Claim C8, amended. When \<^verbatim>\<open>SIGHASH_SINGLE\<close> is requested with fewer outputs than the
  input index plus one, and it is not the case that the index is that of the last input
  with exactly as many outputs as the index, an error reaches the caller and neither a
  preimage nor a signature is produced: \<^verbatim>\<open>signatureForm\<close> throws a \<^verbatim>\<open>TypeError\<close>, and
  \<^verbatim>\<open>signTx\<close> throws that \<^verbatim>\<open>TypeError\<close> unless a collaborator it calls before building the
  preimage has thrown already.
\<close>

theorem signatureForm_single_missing_output:
  assumes "length (outs txObj) < i + 1"
    and "\<not> (Suc i = length (ins txObj) \<and> length (outs txObj) = i)"
  shows "fst (signatureForm h txObj i script SIGHASH_SINGLE) = Inl TypeError \<and>
         isl (fst (signTx c h txObj i privKey (Some SIGHASH_SINGLE))) \<and>
         fst (signTx c h txObj i privKey (Some SIGHASH_SINGLE)) =
           (case privKeyToPubKey c privKey of
              Inl e \<Rightarrow> Inl e
            | Inr pubKey \<Rightarrow>
                (case pubKeyToAddr c pubKey of
                   Inl e \<Rightarrow> Inl e
                 | Inr address \<Rightarrow>
                     (case mkPubkeyHashReplayScript c address of
                        Inl e \<Rightarrow> Inl e
                      | Inr replayScript \<Rightarrow> Inl TypeError)))"
proof -
  have thrown: "\<exists>h1. signatureForm h txObj i s SIGHASH_SINGLE = (Inl TypeError, h1)" for s
    using signatureForm_single_throws [OF assms, of h s]
    by (cases "signatureForm h txObj i s SIGHASH_SINGLE") simp
  have buf: "writeUInt16LE (bufferAlloc 4) SIGHASH_SINGLE 0 = Inr [3, 0, 0, 0]"
    by (simp add: bufferAlloc_4 writeUInt16LE_4 SIGHASH_SINGLE_def)
  have signTx_value: "fst (signTx c h txObj i privKey (Some SIGHASH_SINGLE)) =
           (case privKeyToPubKey c privKey of
              Inl e \<Rightarrow> Inl e
            | Inr pubKey \<Rightarrow>
                (case pubKeyToAddr c pubKey of
                   Inl e \<Rightarrow> Inl e
                 | Inr address \<Rightarrow>
                     (case mkPubkeyHashReplayScript c address of
                        Inl e \<Rightarrow> Inl e
                      | Inr replayScript \<Rightarrow> Inl TypeError)))"
  proof (cases "privKeyToPubKey c privKey")
    case Inl
    then show ?thesis by (simp add: signTx_def tryE_def buf)
  next
    case pk: (Inr pubKey)
    show ?thesis
    proof (cases "pubKeyToAddr c pubKey")
      case Inl
      then show ?thesis by (simp add: signTx_def tryE_def buf pk)
    next
      case ad: (Inr address)
      show ?thesis
      proof (cases "mkPubkeyHashReplayScript c address")
        case Inl
        then show ?thesis by (simp add: signTx_def tryE_def buf pk ad)
      next
        case sc: (Inr replayScript)
        from thrown [of replayScript] obtain h1 where
          "signatureForm h txObj i replayScript SIGHASH_SINGLE = (Inl TypeError, h1)" ..
        then show ?thesis by (simp add: signTx_def tryE_def buf pk ad sc)
      qed
    qed
  qed
  have "isl (fst (signTx c h txObj i privKey (Some SIGHASH_SINGLE)))"
    unfolding signTx_value by (simp split: sum.splits)
  with signatureForm_single_throws [OF assms] signTx_value show ?thesis
    by simp
qed

theorem signatureForm_single_missing_output_witness:
  "length (outs (twoInputTx\<lparr>outs := []\<rparr>)) < 0 + 1 \<and>
   \<not> (Suc 0 = length (ins (twoInputTx\<lparr>outs := []\<rparr>)) \<and> length (outs (twoInputTx\<lparr>outs := []\<rparr>)) = 0) \<and>
   fst (signatureForm exampleHeap (twoInputTx\<lparr>outs := []\<rparr>) 0 ''cd'' SIGHASH_SINGLE) = Inl TypeError \<and>
   fst (signTx fixedCollaborators exampleHeap (twoInputTx\<lparr>outs := []\<rparr>) 0 ''0c'' (Some SIGHASH_SINGLE)) =
     Inl TypeError"
proof -
  have a: "length (outs (twoInputTx\<lparr>outs := []\<rparr>)) < 0 + 1"
    and b: "\<not> (Suc 0 = length (ins (twoInputTx\<lparr>outs := []\<rparr>)) \<and>
              length (outs (twoInputTx\<lparr>outs := []\<rparr>)) = 0)"
    by (simp_all add: twoInputTx_def)
  from signatureForm_single_missing_output [OF a b, of exampleHeap "''cd''" fixedCollaborators "''0c''"]
    a b
  show ?thesis
    by (simp add: fixedCollaborators_def mkPubkeyHashReplayScript_value bindE_def)
qed

section \<open>What the serializer emits\<close>

lemma numToVarInt_small: "n < 253 \<Longrightarrow> numToVarInt n = hexByte (of_nat n)"
  by (simp add: numToVarInt_def bufferFromArray_def toHex_def)

lemma txLayout_split:
  assumes "k < length (outs txObj)"
  shows "txLayout h txObj =
           (uint16Field (version txObj) @ numToVarInt (length (ins txObj)) @
            concat (map (\<lambda>r. inputChunk (inobj h r)) (ins txObj)) @
            numToVarInt (length (outs txObj)) @
            concat (map (\<lambda>r. outputChunk (outobj h r)) (take k (outs txObj)))) @
           outputChunk (outobj h (outs txObj ! k)) @
           concat (map (\<lambda>r. outputChunk (outobj h r)) (drop (Suc k) (outs txObj))) @
           uint16Field (locktime txObj)"
proof -
  have "outs txObj = take k (outs txObj) @ outs txObj ! k # drop (Suc k) (outs txObj)"
    using assms by (simp add: id_take_nth_drop [symmetric])
  then have "concat (map (\<lambda>r. outputChunk (outobj h r)) (outs txObj)) =
      concat (map (\<lambda>r. outputChunk (outobj h r)) (take k (outs txObj))) @
      outputChunk (outobj h (outs txObj ! k)) @
      concat (map (\<lambda>r. outputChunk (outobj h r)) (drop (Suc k) (outs txObj)))"
    by (metis concat.simps(2) concat_append list.simps(9) map_append)
  then show ?thesis
    by (simp add: txLayout_def)
qed

text \<open>
  Claim C7. When an output's amount is the number that stands for the largest 64-bit
  unsigned value \<open>2^64 - 1\<close> (the placeholder \<^verbatim>\<open>Math.pow(2, 64) - 1\<close>), a serialization that
  \<^verbatim>\<open>serializeTx\<close> returns holds, at that output's place, eight bytes \<open>0xFF\<close> followed
  by the output's script length and script: everything before it is the header, the
  inputs and the earlier outputs, everything after it the later outputs and the lock
  time. The callback that serializes the output does not throw on it.
\<close>

theorem serializeTx_placeholder_amount:
  assumes "serializeTx h txObj = Inr s"
    and "k < length (outs txObj)"
    and "out_satoshis (outobj h (outs txObj ! k)) = js_number (2 ^ 64 - 1)"
  shows "s = (uint16Field (version txObj) @ numToVarInt (length (ins txObj)) @
              concat (map (\<lambda>r. inputChunk (inobj h r)) (ins txObj)) @
              numToVarInt (length (outs txObj)) @
              concat (map (\<lambda>r. outputChunk (outobj h r)) (take k (outs txObj)))) @
             toHex (replicate 8 255) @
             numToVarInt (length (out_script (outobj h (outs txObj ! k)))) @
             out_script (outobj h (outs txObj ! k)) @
             concat (map (\<lambda>r. outputChunk (outobj h r)) (drop (Suc k) (outs txObj))) @
             uint16Field (locktime txObj) \<and>
         toHex (replicate 8 255) = ''ffffffffffffffff'' \<and>
         serializeOutput (outobj h (outs txObj ! k)) acc =
           Inr (acc @ ''ffffffffffffffff'' @
                numToVarInt (length (out_script (outobj h (outs txObj ! k)))) @
                out_script (outobj h (outs txObj ! k)))"
proof -
  have ff: "toHex (replicate 8 255) = ''ffffffffffffffff''"
    using ff_bytes by (simp add: numeral_eq_Suc)
  have placeholder: "out_satoshis (outobj h (outs txObj ! k)) = pow_2_64_minus_1"
    using assms(3) by (simp add: pow_2_64_minus_1_def)
  have chunk: "outputChunk (outobj h (outs txObj ! k)) =
      ''ffffffffffffffff'' @ numToVarInt (length (out_script (outobj h (outs txObj ! k)))) @
      out_script (outobj h (outs txObj ! k))"
    using placeholder by (simp add: outputChunk_def amountField_def)
  have "s = txLayout h txObj"
    using assms(1) by (simp add: serializeTx_value split: if_splits)
  then show ?thesis
    unfolding txLayout_split [OF assms(2)] chunk ff
    using placeholder by (simp add: serializeOutput_value chunk)
qed

theorem serializeTx_placeholder_amount_witness:
  "serializeTx (blank_out exampleHeap 0) twoInputTx = Inr (txLayout (blank_out exampleHeap 0) twoInputTx) \<and>
   0 < length (outs twoInputTx) \<and>
   out_satoshis (outobj (blank_out exampleHeap 0) (outs twoInputTx ! 0)) = js_number (2 ^ 64 - 1) \<and>
   serializeOutput (outobj (blank_out exampleHeap 0) (outs twoInputTx ! 0)) ''02'' =
     Inr (''02'' @ ''ffffffffffffffff'' @ ''00'')"
proof -
  have a: "serializeTx (blank_out exampleHeap 0) twoInputTx =
      Inr (txLayout (blank_out exampleHeap 0) twoInputTx)"
    by (simp add: serializeTx_value serializable_def twoInputTx_def blank_out_def exampleHeap_def)
  have b: "0 < length (outs twoInputTx)"
    by (simp add: twoInputTx_def)
  have c: "out_satoshis (outobj (blank_out exampleHeap 0) (outs twoInputTx ! 0)) =
      js_number (2 ^ 64 - 1)"
    by (simp add: twoInputTx_def blank_out_def pow_2_64_minus_1_def)
  have d: "out_script (outobj (blank_out exampleHeap 0) (outs twoInputTx ! 0)) = []"
    by (simp add: twoInputTx_def blank_out_def)
  have e: "numToVarInt 0 = ''00''"
    by (simp add: numToVarInt_small hexByte_def hexDigit_def)
  from serializeTx_placeholder_amount [OF a b c, of "''02''"] a b c show ?thesis
    by (simp add: d e)
qed

lemma exampleScript_length:
  "length (fromHex ''a914111111111111111111111111111111111111111187'') = 23"
  by (simp add: hexVal_def)

text \<open>
  Claim C1. \<^verbatim>\<open>serializeTx\<close> is claimed to write each script's length in bytes, and the
  version, output index, amount and lock time as little-endian fields of 4, 4, 8 and 4
  bytes. On the one-input transaction, whose output script has 23 bytes, the length it
  writes before that script is \<open>0x2e = 46\<close>, the number of hex characters; the byte
  length would be \<open>0x17\<close>. A version of 65536 or an amount of \<open>2^32\<close> makes it throw.
\<close>

theorem serializeTx_script_length_in_hex_characters:
  "serializeTx exampleHeap oneInputTx =
     Inr (''01000000'' @ ''01'' @
          ''aaaaaaaaaaaaaaaaaaaaaaaaaaaaaaaaaaaaaaaaaaaaaaaaaaaaaaaaaaaaaaaa'' @ ''00000000'' @
          ''00'' @ ''ffffffff'' @
          ''01'' @ ''f0b9f50500000000'' @
          ''2e'' @ ''a914111111111111111111111111111111111111111187'' @
          ''00000000'') \<and>
   out_script (outobj exampleHeap 0) = ''a914111111111111111111111111111111111111111187'' \<and>
   length (fromHex ''a914111111111111111111111111111111111111111187'') = 23 \<and>
   numToVarInt 23 = ''17'' \<and> numToVarInt 46 = ''2e'' \<and>
   serializeTx exampleHeap (oneInputTx\<lparr>version := 65536\<rparr>) = Inl RangeError \<and>
   serializeTx (exampleHeap\<lparr>outobj := \<lambda>r. \<lparr>out_script = ''51'', out_satoshis = 4294967296\<rparr>\<rparr>)
     oneInputTx = Inl RangeError"
proof -
  have v: "numToVarInt 23 = ''17''" "numToVarInt 46 = ''2e''" "numToVarInt 1 = ''01''"
    "numToVarInt 0 = ''00''" "numToVarInt (Suc 0) = ''01''"
    by (simp_all add: numToVarInt_small hexByte_def hexDigit_def)
  have amount: "amountField 99990000 = ''f0b9f50500000000''"
    by (simp add: amountField_def pow_2_64_minus_1_value toHex_def hexByte_def hexDigit_def)
  have fields: "uint16Field (Suc 0) = ''01000000''" "uint16Field 0 = ''00000000''"
    by (simp_all add: uint16Field_def toHex_def hexByte_def hexDigit_def)
  have ok: "serializable exampleHeap oneInputTx"
    by (simp add: serializable_def oneInputTx_def exampleHeap_def)
  have layout: "txLayout exampleHeap oneInputTx =
     ''01000000'' @ ''01'' @
     ''aaaaaaaaaaaaaaaaaaaaaaaaaaaaaaaaaaaaaaaaaaaaaaaaaaaaaaaaaaaaaaaa'' @ ''00000000'' @
     ''00'' @ ''ffffffff'' @
     ''01'' @ ''f0b9f50500000000'' @
     ''2e'' @ ''a914111111111111111111111111111111111111111187'' @
     ''00000000''"
    by (simp add: txLayout_def oneInputTx_def exampleHeap_def inputChunk_def outputChunk_def
        v amount fields numToVarInt_small hexByte_def hexDigit_def)
  have bad_version: "\<not> serializable exampleHeap (oneInputTx\<lparr>version := 65536\<rparr>)"
    by (simp add: serializable_def)
  have bad_amount: "\<not> serializable
      (exampleHeap\<lparr>outobj := \<lambda>r. \<lparr>out_script = ''51'', out_satoshis = 4294967296\<rparr>\<rparr>) oneInputTx"
    by (simp add: serializable_def oneInputTx_def pow_2_64_minus_1_value)
  have script: "out_script (outobj exampleHeap 0) = ''a914111111111111111111111111111111111111111187''"
    by (simp add: exampleHeap_def)
  show ?thesis
    unfolding serializeTx_value
    by (simp only: ok bad_version bad_amount layout script exampleScript_length v if_True if_False
        simp_thms)
qed

end
